theory Spec2Isabelle
  imports Complex_Main
begin

section \<open>The Arsenal command-line client (cli-src/index.ts)\<close>

text \<open>
  A shallow embedding of the four command handlers of the command-line client:
  \<^verbatim>\<open>init\<close>, \<^verbatim>\<open>sync\<close>, \<^verbatim>\<open>link\<close> and \<^verbatim>\<open>unlink\<close>, in the variant whose handlers
  are wrapped in a top-level \<^verbatim>\<open>try\<close>/\<^verbatim>\<open>catch\<close>. The source file holds two programs; this
  is the first, the one with the validation of the prompts and a \<^verbatim>\<open>try\<close> around every
  record of the loop.

  The handlers are effectful: they read and write three places of the working directory
  (the configuration file, the directory of pending learning records, the pre-push hook),
  talk to the remote service with \<^verbatim>\<open>fetch\<close>, and print to the console. The embedding
  passes a \<open>world\<close> explicitly (the three places, the console, and a trace of every
  file-system and network operation performed so far) and takes every answer of the
  environment from an \<open>env\<close> of oracles. An oracle is asked with the number of
  operations performed so far, so that the environment may answer the same request
  differently at different moments. A JavaScript exception is a value \<open>Inl (Error m)\<close>.
\<close>

subsection \<open>Values, errors and small helpers\<close>

datatype exn = Error string

fun message :: "exn \<Rightarrow> string" where
  "message (Error m) = m"

text \<open>\<^verbatim>\<open>a || b\<close> on an optional string: \<^verbatim>\<open>undefined\<close> and the empty string are falsy.\<close>

fun or_else :: "string option \<Rightarrow> string \<Rightarrow> string" where
  "or_else None d = d"
| "or_else (Some s) d = (if s = [] then d else s)"

text \<open>\<^verbatim>\<open>file.endsWith(suffix)\<close>.\<close>

definition endsWith :: "string \<Rightarrow> string \<Rightarrow> bool" where
  "endsWith s suffix \<longleftrightarrow>
     length suffix \<le> length s \<and> drop (length s - length suffix) s = suffix"

text \<open>\<^verbatim>\<open>res.ok\<close> of a fetch response: the status is in the range 200 to 299.\<close>

definition ok :: "nat \<Rightarrow> bool" where
  "ok status \<longleftrightarrow> 200 \<le> status \<and> status < 300"

text \<open>The decimal numeral of a status code, as a template literal prints it.\<close>

fun digit_char :: "nat \<Rightarrow> char" where
  "digit_char n = char_of (48 + n)"

function string_of_nat :: "nat \<Rightarrow> string" where
  "string_of_nat n =
     (if n < 10 then [digit_char n] else string_of_nat (n div 10) @ [digit_char (n mod 10)])"
  by pat_completeness auto
termination
  by (relation "measure id") auto

declare string_of_nat.simps [simp del]

subsection \<open>Numbers\<close>

text \<open>
  A JavaScript number as \<^verbatim>\<open>JSON.parse\<close> gives it: one of the two infinities or a finite
  value. The finite values of the double format are rational numbers, the two zeros
  are the same value under \<^verbatim>\<open>===\<close>, and \<^verbatim>\<open>JSON.parse\<close> gives no \<^verbatim>\<open>NaN\<close>; so two such
  numbers are \<^verbatim>\<open>===\<close> exactly when they are equal here. What \<^verbatim>\<open>parseInt\<close> returns is a
  \<open>number option\<close>, \<open>None\<close> for \<^verbatim>\<open>NaN\<close>, which is \<^verbatim>\<open>!==\<close> to every number.
\<close>

datatype number = Infinity | MinusInfinity | Finite rat

subsection \<open>The data model: the type declarations of the source\<close>

record Config =
  projectId :: string
  apiKey :: string
  userId :: number
  githubRepo :: "string option"

record Learning =
  file_path :: string
  function_name :: string
  library_name :: string
  description :: string
  code_snippet :: string
  title :: "string option"

record LoginResponse =
  access_token :: string
  user_id :: number
  token_type :: string
  detail :: "string option"

text \<open>\<^verbatim>\<open>ApiKeyResponse\<close>, read together with the \<^verbatim>\<open>{ detail?: string }\<close> of a refusal.\<close>

record ApiKeyResponse =
  api_key :: string
  key_detail :: "string option"

text \<open>\<^verbatim>\<open>TestApiKeyResponse\<close>: \<^verbatim>\<open>{ user: { user_id, project_id } }\<close>.\<close>

datatype TestApiKeyResponse = TestApiKeyUser number number

text \<open>The body of a learning submission: the five fields \<^verbatim>\<open>sendLearning\<close> serialises.\<close>

datatype LearningBody = LearningBody string string string string string

text \<open>The answers of the prompts of \<^verbatim>\<open>init\<close>.\<close>

record InitAnswers =
  email :: string
  password :: string
  answeredProjectId :: string

subsection \<open>The environment and the world\<close>

text \<open>
  What \<^verbatim>\<open>fetch\<close> gives: the promise rejects with a message, or resolves to a response
  with a status and a body; the body is \<open>Inl m\<close> when reading it (\<^verbatim>\<open>res.json()\<close>,
  \<^verbatim>\<open>res.text()\<close>) rejects with message \<open>m\<close>.
\<close>

datatype 'a fetch_result = Rejected string | Response nat "string + 'a"

fun status_of :: "'a fetch_result \<Rightarrow> nat option" where
  "status_of (Rejected m) = None"
| "status_of (Response status body) = Some status"

text \<open>The file-system operations the handlers perform, each on a fixed place.\<close>

datatype fs_op =
    MkdirConfigDir
  | ReadConfig
  | WriteConfig
  | AccessLearnings
  | ReaddirLearnings
  | ReadLearning string
  | UnlinkLearning string
  | WriteHook
  | AccessHook
  | UnlinkHook

text \<open>
  The requests the handlers send. \<open>PostLearning\<close> carries, before the project identifier,
  the API key and the body, the name of the record file on whose behalf
  \<^verbatim>\<open>sendLearning\<close> sends it (its \<^verbatim>\<open>filePath\<close> argument).
\<close>

datatype request =
    PostLogin string string
  | GetProject string string
  | PostGenerateKey string "number option"
  | GetTestApiKey string
  | PostLearning string string string LearningBody

text \<open>
  The trace: a file-system operation with whether it succeeded, a request with the status
  of its response (\<open>None\<close> when \<^verbatim>\<open>fetch\<close> rejected).
\<close>

datatype event = Fs fs_op bool | Net request "nat option"

text \<open>The messages the handlers print, one constructor per message of the source.\<close>

datatype msg =
    FailedToCreateConfigDir
  | LoggingIn
  | LoginFailed "string option"
  | LoginSuccessful
  | VerifyingProject
  | ProjectNotFound string
  | ErrorDetails string
  | GeneratingKey
  | GeneratedKey
  | FailedToGenerateKey string
  | ProjectInitialized
  | InitFailed string
  | NoConfigFound
  | ValidationError string
  | ProjectIdMsg string
  | GithubRepoMsg string
  | NoLearningsDir
  | NoLearningsToSync
  | Syncing nat
  | Synced string
  | FailedToSyncFile string string
  | SuccessfullySynced nat
  | FailedToSyncCount nat
  | SyncFailed string
  | NotAGitRepo
  | NoArsenalConfig
  | CouldNotDetectRepo
  | HookInstalled
  | RepoLinked
  | FailedToInstallHook string
  | LinkFailed string
  | HookRemoved
  | NoHookFound
  | FailedToRemoveHook string

text \<open>
  The environment. \<open>fs_error i op\<close> is \<open>Some m\<close> when the operating system refuses the
  operation \<open>op\<close>, asked as the \<open>i\<close>-th operation of the run, with message \<open>m\<close>
  (permissions, a read-only file system, a path that is not of the expected kind).
  \<open>parse_int\<close> is the built-in \<^verbatim>\<open>parseInt(string)\<close>, called without a radix.
  \<open>json_config\<close> and \<open>json_learning\<close> are \<^verbatim>\<open>JSON.parse\<close> read at the declared type
  (\<open>Inl m\<close>: \<^verbatim>\<open>JSON.parse\<close> throws with message \<open>m\<close>). The casts of the source are
  trusted: a text parses to a value of the declared type or not at all.
  \<open>stringify_config\<close> is \<^verbatim>\<open>JSON.stringify(config, null, 2)\<close>. \<open>git_rev_parse\<close> is the
  exit status of \<^verbatim>\<open>git rev-parse --is-inside-work-tree\<close> (not 0 also when the command
  cannot be run), \<open>git_remote_url\<close> the output of
  \<^verbatim>\<open>git config --get remote.origin.url\<close> (\<open>None\<close> when the command fails). The
  prompts resolve to answers that passed their validation, or reject. The last five
  fields are the endpoints of the remote service.
\<close>

record env =
  fs_error :: "nat \<Rightarrow> fs_op \<Rightarrow> string option"
  parse_int :: "string \<Rightarrow> number option"
  json_config :: "string \<Rightarrow> string + Config"
  json_learning :: "string \<Rightarrow> string + Learning"
  stringify_config :: "Config \<Rightarrow> string"
  git_rev_parse :: nat
  git_remote_url :: "string option"
  prompt_init :: "string + InitAnswers"
  prompt_link :: "string + string"
  login :: "nat \<Rightarrow> string \<Rightarrow> string \<Rightarrow> LoginResponse fetch_result"
  get_project :: "nat \<Rightarrow> string \<Rightarrow> string \<Rightarrow> string fetch_result"
  generate_key :: "nat \<Rightarrow> string \<Rightarrow> number option \<Rightarrow> ApiKeyResponse fetch_result"
  test_api_key :: "nat \<Rightarrow> string \<Rightarrow> TestApiKeyResponse fetch_result"
  post_learning :: "nat \<Rightarrow> string \<Rightarrow> string \<Rightarrow> LearningBody \<Rightarrow> string option fetch_result"

text \<open>
  The three places on disk: the content of \<^verbatim>\<open>.arsenal/config.json\<close>, the entries (name
  and content, in the order \<^verbatim>\<open>readdir\<close> lists them) of \<^verbatim>\<open>.arsenal/learnings\<close>, and the
  content of \<^verbatim>\<open>.git/hooks/pre-push\<close>; \<open>None\<close> when the place does not exist.
\<close>

record disk =
  config_file :: "string option"
  learnings :: "(string \<times> string) list option"
  hook_file :: "string option"

record world =
  files :: disk
  console :: "msg list"
  trace :: "event list"

definition boot :: "disk \<Rightarrow> world" where
  "boot d = \<lparr>files = d, console = [], trace = []\<rparr>"

definition print :: "msg \<Rightarrow> world \<Rightarrow> world" where
  "print m w = w\<lparr>console := console w @ [m]\<rparr>"

definition log_event :: "event \<Rightarrow> world \<Rightarrow> world" where
  "log_event ev w = w\<lparr>trace := trace w @ [ev]\<rparr>"

definition now :: "world \<Rightarrow> nat" where
  "now w = length (trace w)"

subsection \<open>File-system and network operations\<close>

text \<open>
  A file-system operation asks the environment first; when it is not refused, its
  meaning on the disk decides. Either way the operation is entered in the trace.
\<close>

definition ENOENT :: string where
  "ENOENT = ''ENOENT: no such file or directory''"

definition fs_call ::
  "env \<Rightarrow> fs_op \<Rightarrow> (disk \<Rightarrow> string + 'a \<times> disk) \<Rightarrow> world \<Rightarrow> (exn + 'a) \<times> world" where
  "fs_call env op sem w =
     (case fs_error env (now w) op of
        Some m \<Rightarrow> (Inl (Error m), log_event (Fs op False) w)
      | None \<Rightarrow>
          (case sem (files w) of
             Inl m \<Rightarrow> (Inl (Error m), log_event (Fs op False) w)
           | Inr (x, d) \<Rightarrow> (Inr x, log_event (Fs op True) (w\<lparr>files := d\<rparr>))))"

text \<open>\<^verbatim>\<open>fs.mkdir(configDir, { recursive: true })\<close>\<close>

definition mkdir_config_dir :: "env \<Rightarrow> world \<Rightarrow> (exn + unit) \<times> world" where
  "mkdir_config_dir env = fs_call env MkdirConfigDir (\<lambda>d. Inr ((), d))"

text \<open>\<^verbatim>\<open>fs.readFile(configPath, 'utf-8')\<close>\<close>

definition readFile_config :: "env \<Rightarrow> world \<Rightarrow> (exn + string) \<times> world" where
  "readFile_config env =
     fs_call env ReadConfig
       (\<lambda>d. case config_file d of None \<Rightarrow> Inl ENOENT | Some content \<Rightarrow> Inr (content, d))"

text \<open>\<^verbatim>\<open>fs.writeFile(configPath, content)\<close>\<close>

definition writeFile_config :: "env \<Rightarrow> string \<Rightarrow> world \<Rightarrow> (exn + unit) \<times> world" where
  "writeFile_config env content =
     fs_call env WriteConfig (\<lambda>d. Inr ((), d\<lparr>config_file := Some content\<rparr>))"

text \<open>\<^verbatim>\<open>fs.access(learningsDir)\<close>\<close>

definition access_learnings :: "env \<Rightarrow> world \<Rightarrow> (exn + unit) \<times> world" where
  "access_learnings env =
     fs_call env AccessLearnings
       (\<lambda>d. case learnings d of None \<Rightarrow> Inl ENOENT | Some es \<Rightarrow> Inr ((), d))"

text \<open>\<^verbatim>\<open>fs.readdir(learningsDir)\<close>\<close>

definition readdir_learnings :: "env \<Rightarrow> world \<Rightarrow> (exn + string list) \<times> world" where
  "readdir_learnings env =
     fs_call env ReaddirLearnings
       (\<lambda>d. case learnings d of None \<Rightarrow> Inl ENOENT | Some es \<Rightarrow> Inr (map fst es, d))"

text \<open>\<^verbatim>\<open>fs.readFile(path.join(learningsDir, file), 'utf-8')\<close>\<close>

definition readFile_learning :: "env \<Rightarrow> string \<Rightarrow> world \<Rightarrow> (exn + string) \<times> world" where
  "readFile_learning env file =
     fs_call env (ReadLearning file)
       (\<lambda>d. case learnings d of
               None \<Rightarrow> Inl ENOENT
             | Some es \<Rightarrow>
                 (case map_of es file of None \<Rightarrow> Inl ENOENT | Some content \<Rightarrow> Inr (content, d)))"

text \<open>\<^verbatim>\<open>fs.unlink(path.join(learningsDir, file))\<close>\<close>

definition unlink_learning :: "env \<Rightarrow> string \<Rightarrow> world \<Rightarrow> (exn + unit) \<times> world" where
  "unlink_learning env file =
     fs_call env (UnlinkLearning file)
       (\<lambda>d. case learnings d of
               None \<Rightarrow> Inl ENOENT
             | Some es \<Rightarrow>
                 (case map_of es file of
                    None \<Rightarrow> Inl ENOENT
                  | Some content \<Rightarrow>
                      Inr ((), d\<lparr>learnings := Some (filter (\<lambda>e. fst e \<noteq> file) es)\<rparr>)))"

text \<open>\<^verbatim>\<open>fs.writeFile(hookPath, hookScript, { mode: 0o755 })\<close>\<close>

definition writeFile_hook :: "env \<Rightarrow> string \<Rightarrow> world \<Rightarrow> (exn + unit) \<times> world" where
  "writeFile_hook env content =
     fs_call env WriteHook (\<lambda>d. Inr ((), d\<lparr>hook_file := Some content\<rparr>))"

text \<open>\<^verbatim>\<open>fs.access(hookPath)\<close>\<close>

definition access_hook :: "env \<Rightarrow> world \<Rightarrow> (exn + unit) \<times> world" where
  "access_hook env =
     fs_call env AccessHook
       (\<lambda>d. case hook_file d of None \<Rightarrow> Inl ENOENT | Some content \<Rightarrow> Inr ((), d))"

text \<open>\<^verbatim>\<open>fs.unlink(hookPath)\<close>\<close>

definition unlink_hook :: "env \<Rightarrow> world \<Rightarrow> (exn + unit) \<times> world" where
  "unlink_hook env =
     fs_call env UnlinkHook
       (\<lambda>d. case hook_file d of
               None \<Rightarrow> Inl ENOENT
             | Some content \<Rightarrow> Inr ((), d\<lparr>hook_file := None\<rparr>))"

text \<open>The five requests: the environment answers, and the request is entered in the trace.\<close>

definition fetch_login ::
  "env \<Rightarrow> string \<Rightarrow> string \<Rightarrow> world \<Rightarrow> LoginResponse fetch_result \<times> world" where
  "fetch_login env mail pass w =
     (let res = login env (now w) mail pass
      in (res, log_event (Net (PostLogin mail pass) (status_of res)) w))"

definition fetch_project ::
  "env \<Rightarrow> string \<Rightarrow> string \<Rightarrow> world \<Rightarrow> string fetch_result \<times> world" where
  "fetch_project env pid token w =
     (let res = get_project env (now w) pid token
      in (res, log_event (Net (GetProject pid token) (status_of res)) w))"

definition fetch_generate_key ::
  "env \<Rightarrow> string \<Rightarrow> number option \<Rightarrow> world \<Rightarrow> ApiKeyResponse fetch_result \<times> world" where
  "fetch_generate_key env token pid w =
     (let res = generate_key env (now w) token pid
      in (res, log_event (Net (PostGenerateKey token pid) (status_of res)) w))"

definition fetch_test_api_key ::
  "env \<Rightarrow> string \<Rightarrow> world \<Rightarrow> TestApiKeyResponse fetch_result \<times> world" where
  "fetch_test_api_key env key w =
     (let res = test_api_key env (now w) key
      in (res, log_event (Net (GetTestApiKey key) (status_of res)) w))"

definition fetch_post_learning ::
  "env \<Rightarrow> string \<Rightarrow> string \<Rightarrow> string \<Rightarrow> LearningBody \<Rightarrow> world
     \<Rightarrow> string option fetch_result \<times> world" where
  "fetch_post_learning env file pid key body w =
     (let res = post_learning env (now w) pid key body
      in (res, log_event (Net (PostLearning file pid key body) (status_of res)) w))"

subsection \<open>\<^verbatim>\<open>isGitRepo\<close>, \<^verbatim>\<open>generateApiKey\<close>, \<^verbatim>\<open>validateConfig\<close>\<close>

text \<open>\<^verbatim>\<open>execSync\<close> throws exactly when the command exits with a status other than 0.\<close>

definition isGitRepo :: "env \<Rightarrow> bool" where
  "isGitRepo env \<longleftrightarrow> git_rev_parse env = 0"

definition generateApiKey ::
  "env \<Rightarrow> string \<Rightarrow> number option \<Rightarrow> world \<Rightarrow> (exn + string) \<times> world" where
  "generateApiKey env accessToken pid w =
     (case fetch_generate_key env accessToken pid w of
        (Rejected m, w1) \<Rightarrow> (Inl (Error m), w1)
      | (Response status body, w1) \<Rightarrow>
          (case body of
             Inl m \<Rightarrow> (Inl (Error m), w1)
           | Inr data \<Rightarrow>
               if \<not> ok status
               then (Inl (Error (or_else (key_detail data) ''Failed to generate API key'')), w1)
               else (Inr (api_key data), w1)))"

text \<open>
  The body of the \<^verbatim>\<open>try\<close> of \<^verbatim>\<open>validateConfig\<close>, on the answer of the remote service:
  what it throws, if anything.
\<close>

definition check_api_key ::
  "env \<Rightarrow> Config \<Rightarrow> TestApiKeyResponse fetch_result \<Rightarrow> exn + unit" where
  "check_api_key env config res =
     (case res of
        Rejected m \<Rightarrow> Inl (Error m)
      | Response status body \<Rightarrow>
          if \<not> ok status then Inl (Error ''Invalid API key'')
          else (case body of
                  Inl m \<Rightarrow> Inl (Error m)
                | Inr (TestApiKeyUser uid pid) \<Rightarrow>
                    if uid \<noteq> userId config \<or> Some pid \<noteq> parse_int env (projectId config)
                    then Inl (Error ''Config mismatch: API key does not match user ID or project ID'')
                    else Inr ()))"

definition validateConfig :: "env \<Rightarrow> Config \<Rightarrow> world \<Rightarrow> (exn + unit) \<times> world" where
  "validateConfig env config w =
     (case fetch_test_api_key env (apiKey config) w of
        (res, w1) \<Rightarrow>
          (case check_api_key env config res of
             Inl err \<Rightarrow> (Inl (Error (''Configuration validation failed: '' @ message err)), w1)
           | Inr u \<Rightarrow> (Inr (), w1)))"

subsection \<open>The \<^verbatim>\<open>sync\<close> command\<close>

text \<open>Reading the configuration: \<^verbatim>\<open>JSON.parse(await fs.readFile(configPath, 'utf-8'))\<close>.\<close>

definition load_config :: "env \<Rightarrow> world \<Rightarrow> (exn + Config) \<times> world" where
  "load_config env w =
     (case readFile_config env w of
        (Inl err, w1) \<Rightarrow> (Inl err, w1)
      | (Inr content, w1) \<Rightarrow>
          (case json_config env content of
             Inl m \<Rightarrow> (Inl (Error m), w1)
           | Inr config \<Rightarrow> (Inr config, w1)))"

text \<open>
  \<^verbatim>\<open>sendLearning(learning, config, filePath)\<close>: the request, the deletion of the record file
  after a response in the 2xx range, and the \<^verbatim>\<open>catch\<close> that rethrows under the name of
  the learning.
\<close>

definition learningName :: "Learning \<Rightarrow> string" where
  "learningName learning =
     or_else (title learning) (or_else (Some (function_name learning)) ''Unknown learning'')"

definition body_of :: "Learning \<Rightarrow> LearningBody" where
  "body_of learning =
     LearningBody (file_path learning) (function_name learning) (library_name learning)
       (description learning) (code_snippet learning)"

definition sendLearning ::
  "env \<Rightarrow> Learning \<Rightarrow> Config \<Rightarrow> string \<Rightarrow> world \<Rightarrow> (exn + unit) \<times> world" where
  "sendLearning env learning config file w =
     (case
        (case fetch_post_learning env file (projectId config) (apiKey config) (body_of learning) w of
           (Rejected m, w1) \<Rightarrow> (Inl (Error m), w1)
         | (Response status body, w1) \<Rightarrow>
             if \<not> ok status
             then (Inl (Error (''Server error: '' @ string_of_nat status @ '' - '' @
                     or_else (case body of Inl m \<Rightarrow> None | Inr d \<Rightarrow> d) ''Unknown error'')), w1)
             else unlink_learning env file w1)
      of
        (Inl err, w2) \<Rightarrow>
          (Inl (Error (''Failed to sync '' @ learningName learning @ '': '' @ message err)), w2)
      | (Inr u, w2) \<Rightarrow> (Inr (), w2))"

text \<open>
  One round of the loop over the files, on the counters \<^verbatim>\<open>successCount\<close> and
  \<^verbatim>\<open>errorCount\<close> and the world: the body of the \<^verbatim>\<open>try\<close> and its \<^verbatim>\<open>catch\<close>.
\<close>

definition sync_file ::
  "env \<Rightarrow> Config \<Rightarrow> string \<Rightarrow> nat \<times> nat \<times> world \<Rightarrow> nat \<times> nat \<times> world" where
  "sync_file env config file st =
     (case st of
        (successCount, errorCount, w) \<Rightarrow>
          (case readFile_learning env file w of
             (Inl err, w1) \<Rightarrow>
               (successCount, errorCount + 1, print (FailedToSyncFile file (message err)) w1)
           | (Inr content, w1) \<Rightarrow>
               (case json_learning env content of
                  Inl m \<Rightarrow> (successCount, errorCount + 1, print (FailedToSyncFile file m) w1)
                | Inr learning \<Rightarrow>
                    (case sendLearning env learning config file w1 of
                       (Inl err, w2) \<Rightarrow>
                         (successCount, errorCount + 1,
                          print (FailedToSyncFile file (message err)) w2)
                     | (Inr u, w2) \<Rightarrow>
                         (successCount + 1, errorCount,
                          print (Synced (or_else (Some (function_name learning)) file)) w2)))))"

fun sync_files ::
  "env \<Rightarrow> Config \<Rightarrow> string list \<Rightarrow> nat \<times> nat \<times> world \<Rightarrow> nat \<times> nat \<times> world" where
  "sync_files env config [] st = st"
| "sync_files env config (file # rest) st = sync_files env config rest (sync_file env config file st)"

text \<open>The two summary lines after the loop, each printed only for a positive count.\<close>

definition report_counts :: "nat \<Rightarrow> nat \<Rightarrow> world \<Rightarrow> world" where
  "report_counts successCount errorCount w =
     (let w1 = (if successCount > 0 then print (SuccessfullySynced successCount) w else w)
      in if errorCount > 0 then print (FailedToSyncCount errorCount) w1 else w1)"

text \<open>The handler from the check of the learnings directory on.\<close>

definition sync_records :: "env \<Rightarrow> Config \<Rightarrow> world \<Rightarrow> (exn + unit) \<times> world" where
  "sync_records env config w =
     (case access_learnings env w of
        (Inl err, w1) \<Rightarrow> (Inr (), print NoLearningsDir w1)
      | (Inr u, w1) \<Rightarrow>
          (case readdir_learnings env w1 of
             (Inl err, w2) \<Rightarrow> (Inl err, w2)
           | (Inr names, w2) \<Rightarrow>
               (let files = filter (\<lambda>file. endsWith file ''.json'') names in
                if length files = 0 then (Inr (), print NoLearningsToSync w2)
                else
                  (case sync_files env config files (0, 0, print (Syncing (length files)) w2) of
                     (successCount, errorCount, w3) \<Rightarrow>
                       (Inr (), report_counts successCount errorCount w3)))))"

text \<open>The body of the top-level \<^verbatim>\<open>try\<close> of the handler.\<close>

definition sync_body :: "env \<Rightarrow> world \<Rightarrow> (exn + unit) \<times> world" where
  "sync_body env w =
     (case load_config env w of
        (Inl err, w1) \<Rightarrow> (Inr (), print NoConfigFound w1)
      | (Inr config, w1) \<Rightarrow>
          (case validateConfig env config w1 of
             (Inl err, w2) \<Rightarrow> (Inr (), print (ValidationError (message err)) w2)
           | (Inr u, w2) \<Rightarrow>
               (let w3 = print (ProjectIdMsg (projectId config)) w2;
                    w4 = (case githubRepo config of
                            None \<Rightarrow> w3
                          | Some repo \<Rightarrow> if repo = [] then w3 else print (GithubRepoMsg repo) w3)
                in sync_records env config w4)))"

text \<open>The handler: the body under its \<^verbatim>\<open>catch\<close>, which prints the message of the error.\<close>

definition sync_action :: "env \<Rightarrow> world \<Rightarrow> (exn + unit) \<times> world" where
  "sync_action env w =
     (case sync_body env w of
        (Inl err, w1) \<Rightarrow> (Inr (), print (SyncFailed (message err)) w1)
      | (Inr u, w1) \<Rightarrow> (Inr (), w1))"

text \<open>One run of \<^verbatim>\<open>arsenal sync\<close> on a disk: a new process, with nothing printed yet.\<close>

definition sync :: "env \<Rightarrow> disk \<Rightarrow> (exn + unit) \<times> world" where
  "sync env d = sync_action env (boot d)"

subsection \<open>The \<^verbatim>\<open>init\<close> command\<close>

text \<open>The handler from the verification of the project on.\<close>

definition init_project ::
  "env \<Rightarrow> InitAnswers \<Rightarrow> LoginResponse \<Rightarrow> world \<Rightarrow> (exn + unit) \<times> world" where
  "init_project env answers loginData w =
     (case fetch_project env (answeredProjectId answers) (access_token loginData) w of
        (Rejected m, w1) \<Rightarrow> (Inl (Error m), w1)
      | (Response status body, w1) \<Rightarrow>
          if \<not> ok status then
            (case body of
               Inl m \<Rightarrow> (Inl (Error m), w1)
             | Inr errorText \<Rightarrow>
                 (Inr (), print (ErrorDetails errorText)
                            (print (ProjectNotFound (answeredProjectId answers)) w1)))
          else
            (case generateApiKey env (access_token loginData)
                    (parse_int env (answeredProjectId answers)) (print GeneratingKey w1) of
               (Inl err, w2) \<Rightarrow> (Inr (), print (FailedToGenerateKey (message err)) w2)
             | (Inr key, w2) \<Rightarrow>
                 (let w3 = print GeneratedKey w2;
                      config = \<lparr>projectId = answeredProjectId answers, apiKey = key,
                                userId = user_id loginData, githubRepo = None\<rparr>
                  in case writeFile_config env (stringify_config env config) w3 of
                       (Inl err, w4) \<Rightarrow> (Inl err, w4)
                     | (Inr u, w4) \<Rightarrow> (Inr (), print ProjectInitialized w4))))"

definition init_body :: "env \<Rightarrow> world \<Rightarrow> (exn + unit) \<times> world" where
  "init_body env w =
     (case mkdir_config_dir env w of
        (Inl err, w1) \<Rightarrow> (Inr (), print FailedToCreateConfigDir w1)
      | (Inr u, w1) \<Rightarrow>
          (case prompt_init env of
             Inl m \<Rightarrow> (Inl (Error m), w1)
           | Inr answers \<Rightarrow>
               (case fetch_login env (email answers) (password answers) (print LoggingIn w1) of
                  (Rejected m, w2) \<Rightarrow> (Inl (Error m), w2)
                | (Response status body, w2) \<Rightarrow>
                    (case body of
                       Inl m \<Rightarrow> (Inl (Error m), w2)
                     | Inr loginData \<Rightarrow>
                         if \<not> ok status then (Inr (), print (LoginFailed (detail loginData)) w2)
                         else init_project env answers loginData
                                (print VerifyingProject (print LoginSuccessful w2))))))"

definition init_action :: "env \<Rightarrow> world \<Rightarrow> (exn + unit) \<times> world" where
  "init_action env w =
     (case init_body env w of
        (Inl err, w1) \<Rightarrow> (Inr (), print (InitFailed (message err)) w1)
      | (Inr u, w1) \<Rightarrow> (Inr (), w1))"

definition init :: "env \<Rightarrow> disk \<Rightarrow> (exn + unit) \<times> world" where
  "init env d = init_action env (boot d)"

subsection \<open>The \<^verbatim>\<open>link\<close> and \<^verbatim>\<open>unlink\<close> commands\<close>

text \<open>The script written to \<^verbatim>\<open>.git/hooks/pre-push\<close>, byte for byte.\<close>

definition hookScript :: string where
  "hookScript =
     ''#!/bin/bash'' @ [CHR 0x0A] @
     replicate 14 (CHR '' '') @ ''echo '' @ [CHR 0x22, CHR 0xF0, CHR 0x9F, CHR 0x94, CHR 0x81] @
       '' Running arsenal sync after Git push...'' @ [CHR 0x22, CHR 0x0A] @
     replicate 14 (CHR '' '') @ ''arsenal sync'' @ [CHR 0x0A] @
     replicate 14 (CHR '' '')"

definition link_body :: "env \<Rightarrow> world \<Rightarrow> (exn + unit) \<times> world" where
  "link_body env w =
     (if \<not> isGitRepo env then (Inr (), print NotAGitRepo w)
      else
        (case load_config env w of
           (Inl err, w1) \<Rightarrow> (Inr (), print NoArsenalConfig w1)
         | (Inr config, w1) \<Rightarrow>
             (let w2 = (case git_remote_url env of
                          None \<Rightarrow> print CouldNotDetectRepo w1
                        | Some url \<Rightarrow> w1)
              in case prompt_link env of
                   Inl m \<Rightarrow> (Inl (Error m), w2)
                 | Inr repo \<Rightarrow>
                     (case writeFile_config env
                             (stringify_config env (config\<lparr>githubRepo := Some repo\<rparr>)) w2 of
                        (Inl err, w3) \<Rightarrow> (Inl err, w3)
                      | (Inr u, w3) \<Rightarrow>
                          (case writeFile_hook env hookScript w3 of
                             (Inl err, w4) \<Rightarrow>
                               (Inr (), print (FailedToInstallHook (message err)) w4)
                           | (Inr u', w4) \<Rightarrow>
                               (Inr (), print RepoLinked (print HookInstalled w4)))))))"

definition link_action :: "env \<Rightarrow> world \<Rightarrow> (exn + unit) \<times> world" where
  "link_action env w =
     (case link_body env w of
        (Inl err, w1) \<Rightarrow> (Inr (), print (LinkFailed (message err)) w1)
      | (Inr u, w1) \<Rightarrow> (Inr (), w1))"

definition link :: "env \<Rightarrow> disk \<Rightarrow> (exn + unit) \<times> world" where
  "link env d = link_action env (boot d)"

definition unlink_body :: "env \<Rightarrow> world \<Rightarrow> (exn + unit) \<times> world" where
  "unlink_body env w =
     (case access_hook env w of
        (Inl err, w1) \<Rightarrow> (Inr (), print NoHookFound w1)
      | (Inr u, w1) \<Rightarrow>
          (case unlink_hook env w1 of
             (Inl err, w2) \<Rightarrow> (Inr (), print NoHookFound w2)
           | (Inr u', w2) \<Rightarrow> (Inr (), print HookRemoved w2)))"

definition unlink_action :: "env \<Rightarrow> world \<Rightarrow> (exn + unit) \<times> world" where
  "unlink_action env w =
     (case unlink_body env w of
        (Inl err, w1) \<Rightarrow> (Inr (), print (FailedToRemoveHook (message err)) w1)
      | (Inr u, w1) \<Rightarrow> (Inr (), w1))"

definition unlink :: "env \<Rightarrow> disk \<Rightarrow> (exn + unit) \<times> world" where
  "unlink env d = unlink_action env (boot d)"

section \<open>Vocabulary of the properties\<close>

subsection \<open>Reading a run: the trace and the console\<close>

text \<open>The record file an operation concerns, if it concerns one.\<close>

fun record_of :: "event \<Rightarrow> string option" where
  "record_of (Fs (ReadLearning f) b) = Some f"
| "record_of (Fs (UnlinkLearning f) b) = Some f"
| "record_of (Net (PostLearning f pid key body) st) = Some f"
| "record_of ev = None"

text \<open>The record files the run read, in the order it read them.\<close>

fun attempted :: "event list \<Rightarrow> string list" where
  "attempted [] = []"
| "attempted (Fs (ReadLearning f) b # evs) = f # attempted evs"
| "attempted (ev # evs) = attempted evs"

text \<open>The requests the run sent, in the order it sent them.\<close>

fun requests :: "event list \<Rightarrow> request list" where
  "requests [] = []"
| "requests (Net r st # evs) = r # requests evs"
| "requests (ev # evs) = requests evs"

text \<open>A submission; a submission that failed (no response, or a status outside 2xx);
  a deletion of a record file that succeeded.\<close>

fun is_submission :: "event \<Rightarrow> bool" where
  "is_submission (Net (PostLearning f pid key body) st) = True"
| "is_submission ev = False"

fun failed_submission :: "event \<Rightarrow> bool" where
  "failed_submission (Net (PostLearning f pid key body) st) =
     (case st of None \<Rightarrow> True | Some n \<Rightarrow> \<not> ok n)"
| "failed_submission ev = False"

fun is_deletion :: "event \<Rightarrow> bool" where
  "is_deletion (Fs (UnlinkLearning f) b) = b"
| "is_deletion ev = False"

definition deleted :: "event list \<Rightarrow> string \<Rightarrow> bool" where
  "deleted tr f \<longleftrightarrow> Fs (UnlinkLearning f) True \<in> set tr"

text \<open>The record file \<open>f\<close> received a response in the 2xx range; its submission failed.\<close>

definition ok_posted :: "string \<Rightarrow> event list \<Rightarrow> bool" where
  "ok_posted f tr \<longleftrightarrow>
     (\<exists>pid key body n. Net (PostLearning f pid key body) (Some n) \<in> set tr \<and> ok n)"

definition failed_posted :: "string \<Rightarrow> event list \<Rightarrow> bool" where
  "failed_posted f tr \<longleftrightarrow>
     (\<exists>pid key body st. Net (PostLearning f pid key body) st \<in> set tr \<and>
        (case st of None \<Rightarrow> True | Some n \<Rightarrow> \<not> ok n))"

text \<open>
  The counts a run reports: the number of its summary line, and 0 when the line is not
  printed (the handler prints a summary line only for a positive count).
\<close>

fun is_summary :: "msg \<Rightarrow> bool" where
  "is_summary (SuccessfullySynced n) = True"
| "is_summary (FailedToSyncCount n) = True"
| "is_summary m = False"

fun reported_succeeded :: "msg list \<Rightarrow> nat" where
  "reported_succeeded [] = 0"
| "reported_succeeded (SuccessfullySynced n # ms) = n"
| "reported_succeeded (m # ms) = reported_succeeded ms"

fun reported_failed :: "msg list \<Rightarrow> nat" where
  "reported_failed [] = 0"
| "reported_failed (FailedToSyncCount n # ms) = n"
| "reported_failed (m # ms) = reported_failed ms"

text \<open>The files of a directory listing that the handler enumerates.\<close>

definition json_files :: "(string \<times> string) list \<Rightarrow> string list" where
  "json_files es = filter (\<lambda>file. endsWith file ''.json'') (map fst es)"

text \<open>The two messages that say there is nothing to sync.\<close>

definition nothing_to_sync :: "msg list \<Rightarrow> bool" where
  "nothing_to_sync ms \<longleftrightarrow> NoLearningsDir \<in> set ms \<or> NoLearningsToSync \<in> set ms"

subsection \<open>The start of a run\<close>

text \<open>
  A run of \<^verbatim>\<open>sync\<close> reads the configuration as its operation 0 and validates it with its
  operation 1. \<open>loaded env d c\<close>: the configuration file of the disk \<open>d\<close> is read and
  parses to \<open>c\<close>. \<open>validated env d c\<close>: moreover the answer of the remote service passes
  the check of \<^verbatim>\<open>validateConfig\<close>.
\<close>

definition loaded :: "env \<Rightarrow> disk \<Rightarrow> Config \<Rightarrow> bool" where
  "loaded env d c \<longleftrightarrow>
     fs_error env 0 ReadConfig = None \<and>
     (case config_file d of None \<Rightarrow> False | Some content \<Rightarrow> json_config env content = Inr c)"

definition validated :: "env \<Rightarrow> disk \<Rightarrow> Config \<Rightarrow> bool" where
  "validated env d c \<longleftrightarrow>
     loaded env d c \<and> check_api_key env c (test_api_key env 1 (apiKey c)) = Inr ()"

text \<open>What a run prints after the validation, and the world in which the loop starts.\<close>

definition pre_msgs :: "Config \<Rightarrow> msg list" where
  "pre_msgs c =
     ProjectIdMsg (projectId c) #
     (case githubRepo c of None \<Rightarrow> [] | Some repo \<Rightarrow> if repo = [] then [] else [GithubRepoMsg repo])"

definition loop_start :: "env \<Rightarrow> disk \<Rightarrow> Config \<Rightarrow> nat \<Rightarrow> world" where
  "loop_start env d c n =
     \<lparr>files = d, console = pre_msgs c @ [Syncing n],
      trace = [Fs ReadConfig True,
               Net (GetTestApiKey (apiKey c)) (status_of (test_api_key env 1 (apiKey c))),
               Fs AccessLearnings True, Fs ReaddirLearnings True]\<rparr>"

subsection \<open>Invariants of the loop\<close>

text \<open>
  After the files \<open>pre\<close> have been processed, starting from the entries \<open>es0\<close>: the
  directory holds the entries that no operation of the trace deleted, and the trace
  concerns record files of \<open>pre\<close> only.
\<close>

definition core :: "(string \<times> string) list \<Rightarrow> string list \<Rightarrow> nat \<times> nat \<times> world \<Rightarrow> bool" where
  "core es0 pre st \<longleftrightarrow>
     (case st of
        (s, e, w) \<Rightarrow>
          learnings (files w) = Some (filter (\<lambda>en. \<not> deleted (trace w) (fst en)) es0) \<and>
          (\<forall>ev\<in>set (trace w). \<forall>f. record_of ev = Some f \<longrightarrow> f \<in> set pre))"

text \<open>What the counters count, and that every file of the list is read once, in order.\<close>

definition counts :: "string list \<Rightarrow> nat \<times> nat \<times> world \<Rightarrow> bool" where
  "counts pre st \<longleftrightarrow>
     (case st of
        (s, e, w) \<Rightarrow>
          attempted (trace w) = pre \<and>
          s = length (filter is_deletion (trace w)) \<and>
          s + e = length pre \<and>
          length (filter failed_submission (trace w)) \<le> e \<and>
          (\<forall>m\<in>set (console w). \<not> is_summary m \<and> m \<noteq> NoLearningsDir \<and> m \<noteq> NoLearningsToSync))"

text \<open>How responses and deletions are related in the trace.\<close>

definition responses ::
  "env \<Rightarrow> (string \<times> string) list \<Rightarrow> string list \<Rightarrow> nat \<times> nat \<times> world \<Rightarrow> bool" where
  "responses env es0 pre st \<longleftrightarrow>
     (case st of
        (s, e, w) \<Rightarrow>
          (\<forall>f. ok_posted f (trace w) \<longrightarrow>
                 Fs (UnlinkLearning f) True \<in> set (trace w) \<or>
                 Fs (UnlinkLearning f) False \<in> set (trace w)) \<and>
          (\<forall>f. deleted (trace w) f \<longrightarrow>
                 ok_posted f (trace w) \<and>
                 (\<exists>c l. map_of es0 f = Some c \<and> json_learning env c = Inr l)) \<and>
          (distinct pre \<longrightarrow> (\<forall>f. failed_posted f (trace w) \<longrightarrow> \<not> deleted (trace w) f)))"

text \<open>
  The local side works: the names of the directory are distinct (as the names of a
  directory are), the file system refuses no read and no deletion of a record file, and
  every \<^verbatim>\<open>.json\<close> file parses.
\<close>

definition local_ok :: "env \<Rightarrow> (string \<times> string) list \<Rightarrow> bool" where
  "local_ok env es \<longleftrightarrow>
     distinct (map fst es) \<and>
     (\<forall>i f. fs_error env i (ReadLearning f) = None) \<and>
     (\<forall>i f. fs_error env i (UnlinkLearning f) = None) \<and>
     (\<forall>en\<in>set es. endsWith (fst en) ''.json'' \<longrightarrow> \<not> isl (json_learning env (snd en)))"

definition exact :: "(string \<times> string) list \<Rightarrow> string list \<Rightarrow> nat \<times> nat \<times> world \<Rightarrow> bool" where
  "exact es0 pre st \<longleftrightarrow>
     (case st of
        (s, e, w) \<Rightarrow>
          distinct pre \<and> (\<forall>f\<in>set pre. endsWith f ''.json'' \<and> f \<in> fst ` set es0) \<longrightarrow>
            e = length (filter failed_submission (trace w)) \<and>
            length (the (learnings (files w))) + s = length es0)"

text \<open>
  The environment answers the same question the same way whenever it is asked. Then
  whether a record file \<open>f\<close> with content \<open>c\<close> is synced does not depend on the moment.
\<close>

definition steady :: "env \<Rightarrow> bool" where
  "steady env \<longleftrightarrow>
     (\<forall>i j. fs_error env i = fs_error env j) \<and>
     (\<forall>i j. login env i = login env j) \<and>
     (\<forall>i j. get_project env i = get_project env j) \<and>
     (\<forall>i j. generate_key env i = generate_key env j) \<and>
     (\<forall>i j. test_api_key env i = test_api_key env j) \<and>
     (\<forall>i j. post_learning env i = post_learning env j)"

definition syncs :: "env \<Rightarrow> Config \<Rightarrow> string \<Rightarrow> string \<Rightarrow> bool" where
  "syncs env config f c \<longleftrightarrow>
     fs_error env 0 (ReadLearning f) = None \<and>
     (case json_learning env c of
        Inl m \<Rightarrow> False
      | Inr l \<Rightarrow>
          (case post_learning env 0 (projectId config) (apiKey config) (body_of l) of
             Rejected m \<Rightarrow> False
           | Response n body \<Rightarrow> ok n)) \<and>
     fs_error env 0 (UnlinkLearning f) = None"

definition fate ::
  "env \<Rightarrow> Config \<Rightarrow> (string \<times> string) list \<Rightarrow> string list \<Rightarrow> nat \<times> nat \<times> world \<Rightarrow> bool" where
  "fate env config es0 pre st \<longleftrightarrow>
     (case st of
        (s, e, w) \<Rightarrow>
          distinct pre \<and> set pre \<subseteq> fst ` set es0 \<longrightarrow>
            (\<forall>f. deleted (trace w) f \<longleftrightarrow>
                   f \<in> set pre \<and> syncs env config f (the (map_of es0 f))) \<and>
            e = length (filter (\<lambda>f. \<not> syncs env config f (the (map_of es0 f))) pre))"


text \<open>A record file whose deletion failed has not been deleted.\<close>

definition kept :: "string list \<Rightarrow> nat \<times> nat \<times> world \<Rightarrow> bool" where
  "kept pre st \<longleftrightarrow>
     (case st of
        (s, e, w) \<Rightarrow>
          distinct pre \<longrightarrow>
            (\<forall>f. Fs (UnlinkLearning f) False \<in> set (trace w) \<longrightarrow> \<not> deleted (trace w) f))"

text \<open>The loop touches neither the configuration file nor the hook.\<close>

definition frame :: "disk \<Rightarrow> string list \<Rightarrow> nat \<times> nat \<times> world \<Rightarrow> bool" where
  "frame d pre st \<longleftrightarrow>
     (case st of
        (s, e, w) \<Rightarrow>
          config_file (files w) = config_file d \<and> hook_file (files w) = hook_file d)"

section \<open>Example environments\<close>

text \<open>
  A configuration, an environment in which the file system refuses nothing, the
  configuration text parses, the remote service validates the API key for user 3 and
  project 7 and accepts every learning except one, and a disk with three pending records
  and a file that is not a record. \<^verbatim>\<open>parseInt\<close> is given on the two strings that the
  examples store as a project identifier, \<^verbatim>\<open>'7'\<close> and \<^verbatim>\<open>'7abc'\<close>: it reads the longest
  prefix of decimal digits, so it answers 7 on both.
\<close>

definition example_config :: Config where
  "example_config =
     \<lparr>projectId = ''7'', apiKey = ''key'', userId = Finite 3, githubRepo = None\<rparr>"

definition example_env :: env where
  "example_env =
     \<lparr>fs_error = (\<lambda>i op. None),
      parse_int = (\<lambda>s. if s = ''7'' \<or> s = ''7abc'' then Some (Finite 7) else None),
      json_config = (\<lambda>s. if s = ''config'' then Inr example_config else Inl ''Unexpected token''),
      json_learning =
        (\<lambda>s. if s = ''{'' then Inl ''Unexpected end of JSON input''
             else Inr \<lparr>file_path = s, function_name = ''f'', library_name = ''lib'',
                       description = ''d'', code_snippet = ''c'', title = None\<rparr>),
      stringify_config = (\<lambda>c. ''config''),
      git_rev_parse = 0,
      git_remote_url = None,
      prompt_init = Inl ''prompt closed'',
      prompt_link = Inl ''prompt closed'',
      login = (\<lambda>i mail pass. Rejected ''offline''),
      get_project = (\<lambda>i pid token. Rejected ''offline''),
      generate_key = (\<lambda>i token pid. Rejected ''offline''),
      test_api_key = (\<lambda>i key. Response 200 (Inr (TestApiKeyUser (Finite 3) (Finite 7)))),
      post_learning =
        (\<lambda>i pid key body.
           if body = LearningBody ''refused'' ''f'' ''lib'' ''d'' ''c''
           then Response 500 (Inr (Some ''refused''))
           else Response 201 (Inr None))\<rparr>"

definition example_disk :: disk where
  "example_disk =
     \<lparr>config_file = Some ''config'',
      learnings = Some [(''a.json'', ''first''), (''notes.txt'', ''text''),
                        (''b.json'', ''refused''), (''c.json'', ''{'')],
      hook_file = None\<rparr>"

text \<open>The same environment outside a Git working tree: \<^verbatim>\<open>git rev-parse\<close> exits with 128.\<close>

definition outside_git_env :: env where
  "outside_git_env = example_env\<lparr>git_rev_parse := 128\<rparr>"


definition mismatch_env :: env where
  "mismatch_env =
     example_env\<lparr>test_api_key :=
       (\<lambda>i key. Response 200 (Inr (TestApiKeyUser (Finite 3) (Finite 8))))\<rparr>"

definition empty_disk :: disk where
  "empty_disk = \<lparr>config_file = Some ''config'', learnings = Some [(''notes.txt'', ''text'')], hook_file = None\<rparr>"

text \<open>
  A learnings directory that exists and cannot be read (a directory without read
  permission): \<^verbatim>\<open>fs.access\<close> succeeds and \<^verbatim>\<open>fs.readdir\<close> is refused.
\<close>

definition unreadable_env :: env where
  "unreadable_env =
     example_env\<lparr>fs_error :=
       (\<lambda>i op. if op = ReaddirLearnings then Some ''EACCES: permission denied'' else None)\<rparr>"

text \<open>
  A stored configuration whose project identifier is \<^verbatim>\<open>'7abc'\<close>, which is not the numeral
  of a number and which \<^verbatim>\<open>parseInt\<close> reads as 7, and the environment in which the
  configuration file parses to it.
\<close>

definition trailing_config :: Config where
  "trailing_config = example_config\<lparr>projectId := ''7abc''\<rparr>"

definition trailing_env :: env where
  "trailing_env =
     example_env\<lparr>json_config :=
       (\<lambda>s. if s = ''config'' then Inr trailing_config else Inl ''Unexpected token'')\<rparr>"


text \<open>
  A file system that refuses to delete the record file \<^verbatim>\<open>a.json\<close> (a directory without
  write permission, say), a disk with that record only, and a disk with two records.
\<close>

definition stubborn_env :: env where
  "stubborn_env =
     example_env\<lparr>fs_error :=
       (\<lambda>i op. if op = UnlinkLearning ''a.json'' then Some ''EACCES: permission denied'' else None)\<rparr>"

definition single_disk :: disk where
  "single_disk =
     \<lparr>config_file = Some ''config'', learnings = Some [(''a.json'', ''first'')], hook_file = None\<rparr>"

definition two_disk :: disk where
  "two_disk =
     \<lparr>config_file = Some ''config'',
      learnings = Some [(''a.json'', ''first''), (''b.json'', ''refused'')],
      hook_file = None\<rparr>"

section \<open>The configuration validator as the specification words it\<close>

text \<open>
  The specification keeps the project identifier of a configuration as a decimal string
  and its user identifier as a number. Its \<^verbatim>\<open>validate(config)\<close> fails with
  \<open>ConfigMismatch\<close> when a field of the answer of \<^verbatim>\<open>validateApiKey\<close> disagrees with the
  stored configuration, and with \<open>ValidationFailed\<close> wrapping the failure of
  \<^verbatim>\<open>validateApiKey\<close> itself, which fails with the message of an invalid API key on a
  status outside 2xx. A returned project identifier agrees with the stored one when the
  stored string is its decimal numeral (\<open>decimal_of\<close>; a number that is not an integer
  has none). \<open>thrown\<close> is the JavaScript error that stands for each failure in the
  program, which knows errors by their messages only.
\<close>

definition string_of_int :: "int \<Rightarrow> string" where
  "string_of_int i =
     (if i < 0 then CHR ''-'' # string_of_nat (nat (- i)) else string_of_nat (nat i))"

definition decimal_of :: "number \<Rightarrow> string option" where
  "decimal_of x =
     (case x of
        Finite q \<Rightarrow> if q = of_int \<lfloor>q\<rfloor> then Some (string_of_int \<lfloor>q\<rfloor>) else None
      | Infinity \<Rightarrow> None
      | MinusInfinity \<Rightarrow> None)"

datatype validate_error = ConfigMismatch | ValidationFailed string

definition validateApiKey_spec ::
  "TestApiKeyResponse fetch_result \<Rightarrow> string + number \<times> number" where
  "validateApiKey_spec res =
     (case res of
        Rejected m \<Rightarrow> Inl m
      | Response status body \<Rightarrow>
          if \<not> ok status then Inl ''Invalid API key''
          else (case body of
                  Inl m \<Rightarrow> Inl m
                | Inr (TestApiKeyUser uid pid) \<Rightarrow> Inr (uid, pid)))"

definition validate_spec :: "Config \<Rightarrow> TestApiKeyResponse fetch_result \<Rightarrow> validate_error + unit" where
  "validate_spec config res =
     (case validateApiKey_spec res of
        Inl m \<Rightarrow> Inl (ValidationFailed m)
      | Inr (uid, pid) \<Rightarrow>
          if uid \<noteq> userId config \<or> decimal_of pid \<noteq> Some (projectId config)
          then Inl ConfigMismatch
          else Inr ())"

text \<open>
  The program compares the returned project identifier with the number that
  \<^verbatim>\<open>parseInt\<close> reads from the stored string. \<open>reads_numeral env config\<close>: the stored
  project identifier is the decimal numeral of the number that \<^verbatim>\<open>parseInt\<close> reads from
  it.
\<close>

definition reads_numeral :: "env \<Rightarrow> Config \<Rightarrow> bool" where
  "reads_numeral env config \<longleftrightarrow>
     (case parse_int env (projectId config) of
        None \<Rightarrow> False
      | Some x \<Rightarrow> decimal_of x = Some (projectId config))"

fun thrown :: "validate_error \<Rightarrow> exn" where
  "thrown ConfigMismatch =
     Error ''Configuration validation failed: Config mismatch: API key does not match user ID or project ID''"
| "thrown (ValidationFailed m) = Error (''Configuration validation failed: '' @ m)"

section \<open>Basic facts\<close>

lemma print_simps [simp]:
  "files (print m w) = files w"
  "console (print m w) = console w @ [m]"
  "trace (print m w) = trace w"
  "now (print m w) = now w"
  by (simp_all add: print_def now_def)

lemma log_event_simps [simp]:
  "files (log_event ev w) = files w"
  "console (log_event ev w) = console w"
  "trace (log_event ev w) = trace w @ [ev]"
  "now (log_event ev w) = Suc (now w)"
  by (simp_all add: log_event_def now_def)

lemma boot_simps [simp]:
  "files (boot d) = d"
  "console (boot d) = []"
  "trace (boot d) = []"
  "now (boot d) = 0"
  by (simp_all add: boot_def now_def)

lemma now_files_update [simp]: "now (w\<lparr>files := d\<rparr>) = now w"
  by (simp add: now_def)

lemma fs_call_cases:
  obtains
    (refused) m where
      "fs_error env (now w) op = Some m"
      "fs_call env op sem w = (Inl (Error m), log_event (Fs op False) w)"
  | (failed) m where
      "fs_error env (now w) op = None" "sem (files w) = Inl m"
      "fs_call env op sem w = (Inl (Error m), log_event (Fs op False) w)"
  | (succeeded) x d where
      "fs_error env (now w) op = None" "sem (files w) = Inr (x, d)"
      "fs_call env op sem w = (Inr x, log_event (Fs op True) (w\<lparr>files := d\<rparr>))"
  by (cases "fs_error env (now w) op"; cases "sem (files w)") (auto simp: fs_call_def)

lemma deleted_simps [simp]:
  "deleted [] f = False"
  "deleted (ev # evs) f = (ev = Fs (UnlinkLearning f) True \<or> deleted evs f)"
  "deleted (tr @ evs) f = (deleted tr f \<or> deleted evs f)"
  by (auto simp: deleted_def)

lemma attempted_append [simp]: "attempted (xs @ ys) = attempted xs @ attempted ys"
  by (induction xs rule: attempted.induct) auto

lemma requests_append [simp]: "requests (xs @ ys) = requests xs @ requests ys"
  by (induction xs rule: requests.induct) auto

lemma ok_posted_simps [simp]:
  "ok_posted f [] = False"
  "ok_posted f (ev # evs) =
     ((\<exists>pid key body n. ev = Net (PostLearning f pid key body) (Some n) \<and> ok n) \<or> ok_posted f evs)"
  "ok_posted f (tr @ evs) = (ok_posted f tr \<or> ok_posted f evs)"
  by (auto simp: ok_posted_def)

lemma failed_posted_simps [simp]:
  "failed_posted f [] = False"
  "failed_posted f (ev # evs) =
     ((\<exists>pid key body st. ev = Net (PostLearning f pid key body) st \<and>
         (case st of None \<Rightarrow> True | Some n \<Rightarrow> \<not> ok n)) \<or> failed_posted f evs)"
  "failed_posted f (tr @ evs) = (failed_posted f tr \<or> failed_posted f evs)"
  by (auto simp: failed_posted_def)

lemma map_of_filter_fst:
  "map_of (filter (\<lambda>en. P (fst en)) es) k = (if P k then map_of es k else None)"
  by (induction es) auto

lemma length_filter_remove:
  "distinct (map fst es) \<Longrightarrow> map_of es f = Some c \<Longrightarrow>
     Suc (length (filter (\<lambda>en. fst en \<noteq> f) es)) = length es"
proof (induction es)
  case Nil
  then show ?case by simp
next
  case (Cons a es)
  show ?case
  proof (cases "fst a = f")
    case True
    with Cons.prems have "f \<notin> fst ` set es" by auto
    then have "filter (\<lambda>en. fst en \<noteq> f) es = es"
      by (induction es) auto
    with True show ?thesis by simp
  next
    case False
    with Cons show ?thesis by (cases a) auto
  qed
qed

lemma map_of_distinct_fst:
  "distinct (map fst es) \<Longrightarrow> en \<in> set es \<Longrightarrow> map_of es (fst en) = Some (snd en)"
  by (cases en) simp

lemma disk_eqI:
  "config_file a = config_file b \<Longrightarrow> learnings a = learnings b \<Longrightarrow> hook_file a = hook_file b
     \<Longrightarrow> a = (b::disk)"
  by simp

lemma pre_msgs_plain: "m \<in> set (pre_msgs c) \<Longrightarrow> \<not> is_summary m \<and> m \<noteq> NoLearningsDir \<and> m \<noteq> NoLearningsToSync"
  by (auto simp: pre_msgs_def split: option.splits if_splits)

lemma loop_start_simps [simp]:
  "files (loop_start env d c n) = d"
  "console (loop_start env d c n) = pre_msgs c @ [Syncing n]"
  "trace (loop_start env d c n) =
     [Fs ReadConfig True,
      Net (GetTestApiKey (apiKey c)) (status_of (test_api_key env 1 (apiKey c))),
      Fs AccessLearnings True, Fs ReaddirLearnings True]"
  by (simp_all add: loop_start_def)

lemma report_counts_simps [simp]:
  "files (report_counts s e w) = files w"
  "trace (report_counts s e w) = trace w"
  "console (report_counts s e w) =
     console w @ (if s > 0 then [SuccessfullySynced s] else []) @
       (if e > 0 then [FailedToSyncCount e] else [])"
  by (simp_all add: report_counts_def Let_def)

lemma reported_succeeded_plain:
  "\<forall>m\<in>set ms. \<not> is_summary m \<Longrightarrow> reported_succeeded (ms @ ms') = reported_succeeded ms'"
proof (induction ms)
  case Nil
  then show ?case by simp
next
  case (Cons a ms)
  then show ?case by (cases a) simp_all
qed

lemma reported_failed_plain:
  "\<forall>m\<in>set ms. \<not> is_summary m \<Longrightarrow> reported_failed (ms @ ms') = reported_failed ms'"
proof (induction ms)
  case Nil
  then show ?case by simp
next
  case (Cons a ms)
  then show ?case by (cases a) simp_all
qed

lemma reported_pre_msgs [simp]:
  "reported_succeeded (pre_msgs c @ ms) = reported_succeeded ms"
  "reported_failed (pre_msgs c @ ms) = reported_failed ms"
  using pre_msgs_plain by (auto intro!: reported_succeeded_plain reported_failed_plain)

lemma reported_after_loop:
  assumes "\<forall>m\<in>set (console w). \<not> is_summary m"
  shows "reported_succeeded (console (report_counts s e w)) = s"
    and "reported_failed (console (report_counts s e w)) = e"
  using assms by (simp_all add: reported_succeeded_plain reported_failed_plain)

lemma nothing_to_sync_simps [simp]:
  "nothing_to_sync (pre_msgs c @ ms) = nothing_to_sync ms"
  "nothing_to_sync [NoLearningsDir] = True"
  "nothing_to_sync [NoLearningsToSync] = True"
  "nothing_to_sync [SyncFailed m] = False"
  "nothing_to_sync [NoConfigFound] = False"
  "nothing_to_sync [ValidationError m] = False"
  using pre_msgs_plain[of _ c] by (auto simp: nothing_to_sync_def)

lemma nothing_to_sync_after_loop:
  assumes "\<forall>m\<in>set (console w). \<not> is_summary m \<and> m \<noteq> NoLearningsDir \<and> m \<noteq> NoLearningsToSync"
  shows "\<not> nothing_to_sync (console (report_counts s e w))"
  using assms by (auto simp: nothing_to_sync_def)

lemma distinct_json_files: "distinct (map fst es) \<Longrightarrow> distinct (json_files es)"
  by (simp add: json_files_def)

lemma json_files_member:
  "f \<in> set (json_files es) \<longleftrightarrow> endsWith f ''.json'' \<and> f \<in> fst ` set es"
  by (auto simp: json_files_def)

lemma loaded_unique: "loaded env d c \<Longrightarrow> loaded env d c' \<Longrightarrow> c' = c"
  by (auto simp: loaded_def split: option.splits)

lemma validated_same_config:
  "config_file d' = config_file d \<Longrightarrow> validated env d' c = validated env d c"
  by (simp add: validated_def loaded_def)

lemma steady_at:
  assumes "steady env"
  shows "fs_error env i op = fs_error env 0 op"
    and "post_learning env i pid key body = post_learning env 0 pid key body"
  using assms unfolding steady_def by metis+

lemma steady_example_env: "steady example_env"
  by (simp add: steady_def example_env_def)

section \<open>The loop over the record files\<close>

text \<open>The five ways one round of the loop can go.\<close>

lemma sync_file_cases:
  assumes "learnings (files w) = Some es"
  obtains
    (read_failed) m where
      "fs_error env (now w) (ReadLearning f) \<noteq> None \<or> map_of es f = None"
      "sync_file env config f (s, e, w) =
         (s, Suc e, print (FailedToSyncFile f m) (log_event (Fs (ReadLearning f) False) w))"
  | (parse_failed) c m where
      "fs_error env (now w) (ReadLearning f) = None"
      "map_of es f = Some c" "json_learning env c = Inl m"
      "sync_file env config f (s, e, w) =
         (s, Suc e, print (FailedToSyncFile f m) (log_event (Fs (ReadLearning f) True) w))"
  | (post_failed) c l res m where
      "fs_error env (now w) (ReadLearning f) = None"
      "map_of es f = Some c" "json_learning env c = Inr l"
      "res = post_learning env (Suc (now w)) (projectId config) (apiKey config) (body_of l)"
      "case status_of res of None \<Rightarrow> True | Some n \<Rightarrow> \<not> ok n"
      "sync_file env config f (s, e, w) =
         (s, Suc e, print (FailedToSyncFile f m)
            (log_event (Net (PostLearning f (projectId config) (apiKey config) (body_of l)) (status_of res))
              (log_event (Fs (ReadLearning f) True) w)))"
  | (unlink_failed) c l n body m m' where
      "fs_error env (now w) (ReadLearning f) = None"
      "map_of es f = Some c" "json_learning env c = Inr l"
      "post_learning env (Suc (now w)) (projectId config) (apiKey config) (body_of l) = Response n body"
      "ok n"
      "fs_error env (Suc (Suc (now w))) (UnlinkLearning f) = Some m'"
      "sync_file env config f (s, e, w) =
         (s, Suc e, print (FailedToSyncFile f m)
            (log_event (Fs (UnlinkLearning f) False)
              (log_event (Net (PostLearning f (projectId config) (apiKey config) (body_of l)) (Some n))
                (log_event (Fs (ReadLearning f) True) w))))"
  | (synced) c l n body where
      "fs_error env (now w) (ReadLearning f) = None"
      "map_of es f = Some c" "json_learning env c = Inr l"
      "post_learning env (Suc (now w)) (projectId config) (apiKey config) (body_of l) = Response n body"
      "ok n"
      "fs_error env (Suc (Suc (now w))) (UnlinkLearning f) = None"
      "sync_file env config f (s, e, w) =
         (Suc s, e, print (Synced (or_else (Some (function_name l)) f))
            (log_event (Fs (UnlinkLearning f) True)
              ((log_event (Net (PostLearning f (projectId config) (apiKey config) (body_of l)) (Some n))
                (log_event (Fs (ReadLearning f) True) w))
               \<lparr>files := (files w)\<lparr>learnings := Some (filter (\<lambda>en. fst en \<noteq> f) es)\<rparr>\<rparr>)))"
proof (cases "fs_error env (now w) (ReadLearning f)")
  case (Some m)
  then show ?thesis
    using read_failed[of m]
    by (simp add: sync_file_def readFile_learning_def fs_call_def)
next
  case None
  note rd = None
  show ?thesis
  proof (cases "map_of es f")
    case None
    then show ?thesis
      using read_failed[of ENOENT] rd assms
      by (simp add: sync_file_def readFile_learning_def fs_call_def)
  next
    case (Some c)
    note present = Some
    have read: "readFile_learning env f w = (Inr c, log_event (Fs (ReadLearning f) True) w)"
      using rd assms present by (simp add: readFile_learning_def fs_call_def)
    show ?thesis
    proof (cases "json_learning env c")
      case (Inl m)
      then show ?thesis
        using parse_failed[of c m] rd present read by (simp add: sync_file_def)
    next
      case (Inr l)
      note parsed = Inr
      let ?w1 = "log_event (Fs (ReadLearning f) True) w"
      let ?req = "PostLearning f (projectId config) (apiKey config) (body_of l)"
      show ?thesis
      proof (cases "post_learning env (Suc (now w)) (projectId config) (apiKey config) (body_of l)")
        case (Rejected m)
        then show ?thesis
          using post_failed[of c l "Rejected m"] rd present read parsed
          by (simp add: sync_file_def sendLearning_def fetch_post_learning_def)
      next
        case (Response n body)
        note resp = Response
        show ?thesis
        proof (cases "ok n")
          case False
          then show ?thesis
            using post_failed[of c l "Response n body"] rd present read parsed resp
            by (simp add: sync_file_def sendLearning_def fetch_post_learning_def)
        next
          case True
          note okn = True
          show ?thesis
          proof (cases "fs_error env (Suc (Suc (now w))) (UnlinkLearning f)")
            case (Some m')
            then show ?thesis
              using unlink_failed[of c l n body m'] rd present read parsed resp okn
              by (simp add: sync_file_def sendLearning_def fetch_post_learning_def
                    unlink_learning_def fs_call_def)
          next
            case None
            then show ?thesis
              using synced[of c l n body] rd present read parsed resp okn assms
              by (simp add: sync_file_def sendLearning_def fetch_post_learning_def
                    unlink_learning_def fs_call_def)
          qed
        qed
      qed
    qed
  qed
qed

text \<open>Each invariant is kept by one round; \<open>sync_files_rule\<close> lifts that to the loop.\<close>

lemma core_step:
  assumes "core es0 pre (s, e, w)"
  shows "core es0 (pre @ [f]) (sync_file env config f (s, e, w))"
proof -
  from assms obtain es where es: "learnings (files w) = Some es"
    and es_def: "es = filter (\<lambda>en. \<not> deleted (trace w) (fst en)) es0"
    and evs: "\<forall>ev\<in>set (trace w). \<forall>f. record_of ev = Some f \<longrightarrow> f \<in> set pre"
    by (auto simp: core_def)
  show ?thesis
    using es
  proof (cases rule: sync_file_cases[consumes 1, where env = env and f = f and config = config and s = s and e = e,
        case_names read_failed parse_failed post_failed unlink_failed synced])
    case (read_failed m)
    then show ?thesis using es es_def evs by (auto simp: core_def)
  next
    case (parse_failed c m)
    then show ?thesis using es es_def evs by (auto simp: core_def)
  next
    case (post_failed c l res m)
    then show ?thesis using es es_def evs by (auto simp: core_def)
  next
    case (unlink_failed c l n body m m')
    then show ?thesis using es es_def evs by (auto simp: core_def)
  next
    case (synced c l n body)
    have "filter (\<lambda>en. fst en \<noteq> f) es =
          filter (\<lambda>en. \<not> deleted (trace w) (fst en) \<and> fst en \<noteq> f) es0"
      unfolding es_def by (simp add: conj_commute)
    then show ?thesis using synced es evs by (auto simp: core_def intro: filter_cong)
  qed
qed

lemma sync_files_rule:
  assumes "core es0 pre0 st0" and "Q pre0 st0"
    and step: "\<And>pre f s e w. core es0 pre (s, e, w) \<Longrightarrow> Q pre (s, e, w)
                 \<Longrightarrow> Q (pre @ [f]) (sync_file env config f (s, e, w))"
  shows "core es0 (pre0 @ fs) (sync_files env config fs st0) \<and>
         Q (pre0 @ fs) (sync_files env config fs st0)"
  using assms(1,2)
proof (induction fs arbitrary: pre0 st0)
  case Nil
  then show ?case by simp
next
  case (Cons f fs)
  obtain s e w where st0: "st0 = (s, e, w)" by (cases st0) auto
  have c: "core es0 (pre0 @ [f]) (sync_file env config f st0)"
    using Cons.prems(1) core_step unfolding st0 by blast
  have q: "Q (pre0 @ [f]) (sync_file env config f st0)"
    using Cons.prems step unfolding st0 by blast
  from Cons.IH[OF c q] show ?case by simp
qed

lemma counts_step:
  assumes "core es0 pre (s, e, w)" "counts pre (s, e, w)"
  shows "counts (pre @ [f]) (sync_file env config f (s, e, w))"
proof -
  from assms(1) obtain es where es: "learnings (files w) = Some es"
    by (auto simp: core_def)
  show ?thesis
    using es
  proof (cases rule: sync_file_cases[consumes 1, where env = env and f = f and config = config and s = s and e = e,
        case_names read_failed parse_failed post_failed unlink_failed synced])
    case (read_failed m)
    then show ?thesis using assms(2) by (simp add: counts_def)
  next
    case (parse_failed c m)
    then show ?thesis using assms(2) by (simp add: counts_def)
  next
    case (post_failed c l res m)
    then show ?thesis using assms(2) by (simp add: counts_def)
  next
    case (unlink_failed c l n body m m')
    then show ?thesis using assms(2) by (simp add: counts_def)
  next
    case (synced c l n body)
    then show ?thesis using assms(2) by (simp add: counts_def)
  qed
qed

lemma core_untouched:
  assumes "core es0 pre (s, e, w)" "f \<notin> set pre"
  shows "\<not> ok_posted f (trace w)" "\<not> failed_posted f (trace w)" "\<not> deleted (trace w) f"
  using assms by (force simp: core_def ok_posted_def failed_posted_def deleted_def)+

lemma responses_step:
  assumes "core es0 pre (s, e, w)" "responses env es0 pre (s, e, w)"
  shows "responses env es0 (pre @ [f]) (sync_file env config f (s, e, w))"
proof -
  from assms(1) obtain es where es: "learnings (files w) = Some es"
    and es_def: "es = filter (\<lambda>en. \<not> deleted (trace w) (fst en)) es0"
    by (auto simp: core_def)
  note un = core_untouched[OF assms(1), of f]
  show ?thesis
    using es
  proof (cases rule: sync_file_cases[consumes 1, where env = env and f = f and config = config and s = s and e = e,
        case_names read_failed parse_failed post_failed unlink_failed synced])
    case (read_failed m)
    then show ?thesis using assms(2) by (auto simp: responses_def)
  next
    case (parse_failed c m)
    then show ?thesis using assms(2) by (auto simp: responses_def)
  next
    case (post_failed c l res m)
    then show ?thesis using assms(2) un by (auto simp: responses_def)
  next
    case (unlink_failed c l n body m m')
    then show ?thesis using assms(2) un by (auto simp: responses_def)
  next
    case (synced c l n body)
    from synced(2) have "map_of es0 f = Some c"
      using map_of_filter_fst[where P = "\<lambda>k. \<not> deleted (trace w) k" and es = es0 and k = f]
      unfolding es_def by (simp split: if_splits)
    with synced show ?thesis using assms(2) un by (auto simp: responses_def)
  qed
qed

lemma exact_step:
  assumes ok: "local_ok env es0"
    and "core es0 pre (s, e, w)" "exact es0 pre (s, e, w)"
  shows "exact es0 (pre @ [f]) (sync_file env config f (s, e, w))"
proof (cases "distinct (pre @ [f]) \<and> (\<forall>g\<in>set (pre @ [f]). endsWith g ''.json'' \<and> g \<in> fst ` set es0)")
  case False
  then show ?thesis
    unfolding exact_def by (cases "sync_file env config f (s, e, w)") (simp only: prod.case, blast)
next
  case True
  then have fresh: "f \<notin> set pre" and json: "endsWith f ''.json''" and mem: "f \<in> fst ` set es0"
    and pre: "distinct pre \<and> (\<forall>g\<in>set pre. endsWith g ''.json'' \<and> g \<in> fst ` set es0)"
    by auto
  from assms(2) obtain es where es: "learnings (files w) = Some es"
    and es_def: "es = filter (\<lambda>en. \<not> deleted (trace w) (fst en)) es0"
    by (auto simp: core_def)
  from pre assms(3) es have ih: "e = length (filter failed_submission (trace w))"
    "length es + s = length es0"
    by (auto simp: exact_def)
  have nd: "\<not> deleted (trace w) f" using core_untouched(3)[OF assms(2) fresh] .
  have lookup: "map_of es f = map_of es0 f"
    using map_of_filter_fst[where P = "\<lambda>k. \<not> deleted (trace w) k" and es = es0 and k = f] nd
    unfolding es_def by simp
  from mem obtain c where c: "map_of es0 f = Some c"
    by (metis domIff dom_map_of_conv_image_fst not_Some_eq)
  then have "(f, c) \<in> set es0" by (rule map_of_SomeD)
  with ok json have parsed: "\<not> isl (json_learning env c)"
    by (force simp: local_ok_def)
  have dist: "distinct (map fst es)"
    using ok unfolding es_def local_ok_def by (simp add: distinct_map_filter)
  show ?thesis
    using es
  proof (cases rule: sync_file_cases[consumes 1, where env = env and f = f and config = config and s = s and e = e,
        case_names read_failed parse_failed post_failed unlink_failed synced])
    case (read_failed m)
    then show ?thesis using ok lookup c by (simp add: local_ok_def)
  next
    case (parse_failed c' m)
    then show ?thesis using lookup c parsed by simp
  next
    case (post_failed c' l res m)
    then show ?thesis using ih es by (simp add: exact_def)
  next
    case (unlink_failed c' l n body m m')
    then show ?thesis using ok by (simp add: local_ok_def)
  next
    case (synced c' l n body)
    from length_filter_remove[OF dist synced(2)] ih synced
    show ?thesis by (simp add: exact_def)
  qed
qed

lemma fate_step:
  assumes st: "steady env"
    and "core es0 pre (s, e, w)" "fate env config es0 pre (s, e, w)"
  shows "fate env config es0 (pre @ [f]) (sync_file env config f (s, e, w))"
proof (cases "distinct (pre @ [f]) \<and> set (pre @ [f]) \<subseteq> fst ` set es0")
  case False
  then show ?thesis
    unfolding fate_def by (cases "sync_file env config f (s, e, w)") (simp only: prod.case, blast)
next
  case True
  then have fresh: "f \<notin> set pre" and mem: "f \<in> fst ` set es0"
    and pre: "distinct pre \<and> set pre \<subseteq> fst ` set es0"
    by auto
  from assms(2) obtain es where es: "learnings (files w) = Some es"
    and es_def: "es = filter (\<lambda>en. \<not> deleted (trace w) (fst en)) es0"
    by (auto simp: core_def)
  from pre assms(3) have ih:
    "\<forall>g. deleted (trace w) g \<longleftrightarrow> g \<in> set pre \<and> syncs env config g (the (map_of es0 g))"
    "e = length (filter (\<lambda>f. \<not> syncs env config f (the (map_of es0 f))) pre)"
    by (auto simp: fate_def)
  have nd: "\<not> deleted (trace w) f" using core_untouched(3)[OF assms(2) fresh] .
  have lookup: "map_of es f = map_of es0 f"
    using map_of_filter_fst[where P = "\<lambda>k. \<not> deleted (trace w) k" and es = es0 and k = f] nd
    unfolding es_def by simp
  from mem obtain c where c: "map_of es0 f = Some c"
    by (metis domIff dom_map_of_conv_image_fst not_Some_eq)
  note at = steady_at[OF st]
  show ?thesis
    using es
  proof (cases rule: sync_file_cases[consumes 1, where env = env and f = f and config = config and s = s and e = e,
        case_names read_failed parse_failed post_failed unlink_failed synced])
    case (read_failed m)
    then have "\<not> syncs env config f c"
      using lookup c at(1)[of "now w" "ReadLearning f"] by (auto simp: syncs_def)
    with read_failed ih c fresh show ?thesis by (auto simp: fate_def)
  next
    case (parse_failed c' m)
    then have "\<not> syncs env config f c"
      using lookup c by (auto simp: syncs_def)
    with parse_failed ih c fresh show ?thesis by (auto simp: fate_def)
  next
    case (post_failed c' l res m)
    then have "\<not> syncs env config f c"
      using lookup c at(2)[of "Suc (now w)" "projectId config" "apiKey config" "body_of l"]
      by (auto simp: syncs_def split: fetch_result.splits)
    with post_failed ih c fresh show ?thesis by (auto simp: fate_def)
  next
    case (unlink_failed c' l n body m m')
    then have "\<not> syncs env config f c"
      using lookup c at(1)[of "Suc (Suc (now w))" "UnlinkLearning f"] by (auto simp: syncs_def)
    with unlink_failed ih c fresh show ?thesis by (auto simp: fate_def)
  next
    case (synced c' l n body)
    then have "syncs env config f c"
      using lookup c at(1)[of "now w" "ReadLearning f"]
        at(1)[of "Suc (Suc (now w))" "UnlinkLearning f"]
        at(2)[of "Suc (now w)" "projectId config" "apiKey config" "body_of l"]
      by (auto simp: syncs_def)
    with synced ih c fresh show ?thesis by (auto simp: fate_def)
  qed
qed

lemma frame_step:
  assumes "core es0 pre (s, e, w)" "frame d pre (s, e, w)"
  shows "frame d (pre @ [f]) (sync_file env config f (s, e, w))"
proof -
  from assms(1) obtain es where es: "learnings (files w) = Some es"
    by (auto simp: core_def)
  show ?thesis
    using es
  proof (cases rule: sync_file_cases[consumes 1, where env = env and f = f and config = config and s = s and e = e,
        case_names read_failed parse_failed post_failed unlink_failed synced])
    case (read_failed m)
    then show ?thesis using assms(2) by (simp add: frame_def)
  next
    case (parse_failed c m)
    then show ?thesis using assms(2) by (simp add: frame_def)
  next
    case (post_failed c l res m)
    then show ?thesis using assms(2) by (simp add: frame_def)
  next
    case (unlink_failed c l n body m m')
    then show ?thesis using assms(2) by (simp add: frame_def)
  next
    case (synced c l n body)
    then show ?thesis using assms(2) by (simp add: frame_def)
  qed
qed


lemma core_no_unlink:
  assumes "core es0 pre (s, e, w)" "f \<notin> set pre"
  shows "Fs (UnlinkLearning f) b \<notin> set (trace w)"
  using assms by (force simp: core_def)

lemma kept_step:
  assumes "core es0 pre (s, e, w)" "kept pre (s, e, w)"
  shows "kept (pre @ [f]) (sync_file env config f (s, e, w))"
proof (cases "distinct (pre @ [f])")
  case False
  then show ?thesis
    unfolding kept_def by (cases "sync_file env config f (s, e, w)") (simp only: prod.case, blast)
next
  case True
  then have fresh: "f \<notin> set pre" and dp: "distinct pre" by auto
  from assms(2) dp have ih: "\<And>g. Fs (UnlinkLearning g) False \<in> set (trace w) \<Longrightarrow> \<not> deleted (trace w) g"
    by (simp add: kept_def)
  from assms(1) obtain es where es: "learnings (files w) = Some es"
    by (auto simp: core_def)
  note un = core_untouched(3)[OF assms(1) fresh] core_no_unlink[OF assms(1) fresh]
  show ?thesis
    using es
  proof (cases rule: sync_file_cases[consumes 1, where env = env and f = f and config = config and s = s and e = e,
        case_names read_failed parse_failed post_failed unlink_failed synced])
    case (read_failed m)
    then show ?thesis using ih by (auto simp: kept_def)
  next
    case (parse_failed c m)
    then show ?thesis using ih by (auto simp: kept_def)
  next
    case (post_failed c l res m)
    then show ?thesis using ih by (auto simp: kept_def)
  next
    case (unlink_failed c l n body m m')
    then show ?thesis using ih un by (auto simp: kept_def)
  next
    case (synced c l n body)
    then show ?thesis using ih un by (auto simp: kept_def)
  qed
qed

lemma loop_facts:
  assumes "learnings d = Some es"
    and st_def: "st = sync_files env c fs (0, 0, loop_start env d c n)"
  shows "core es fs st" "counts fs st" "responses env es fs st"
    "local_ok env es \<Longrightarrow> exact es fs st"
    "steady env \<Longrightarrow> fate env c es fs st"
proof -
  let ?st0 = "(0::nat, 0::nat, loop_start env d c n)"
  have c0: "core es [] ?st0"
    using assms(1) by (simp add: core_def)
  have "counts [] ?st0"
    using pre_msgs_plain by (auto simp: counts_def)
  from sync_files_rule[where Q = counts, OF c0 this counts_step]
  show "core es fs st" "counts fs st" by (simp_all add: st_def)
  have "responses env es [] ?st0"
    by (simp add: responses_def)
  from sync_files_rule[where Q = "responses env es", OF c0 this responses_step]
  show "responses env es fs st" by (simp add: st_def)
  show "exact es fs st" if "local_ok env es"
  proof -
    have "exact es [] ?st0" using assms(1) by (simp add: exact_def)
    from sync_files_rule[where Q = "exact es", OF c0 this exact_step[OF that]]
    show ?thesis by (simp add: st_def)
  qed
  show "fate env c es fs st" if "steady env"
  proof -
    have "fate env c es [] ?st0" by (simp add: fate_def)
    from sync_files_rule[where Q = "fate env c es", OF c0 this fate_step[OF that]]
    show ?thesis by (simp add: st_def)
  qed
qed

lemma loop_state:
  assumes "learnings d = Some es"
    and "sync_files env c fs (0, 0, loop_start env d c n) = (s, e, w)"
  shows "core es fs (s, e, w)" "counts fs (s, e, w)" "responses env es fs (s, e, w)"
    "local_ok env es \<Longrightarrow> exact es fs (s, e, w)"
    "steady env \<Longrightarrow> fate env c es fs (s, e, w)"
  using loop_facts[OF assms(1), of "(s, e, w)" env c fs n] assms(2) by simp_all

lemma loop_frame:
  assumes "learnings d = Some es"
    and "sync_files env c fs (0, 0, loop_start env d c n) = (s, e, w)"
  shows "config_file (files w) = config_file d" "hook_file (files w) = hook_file d"
proof -
  let ?st0 = "(0::nat, 0::nat, loop_start env d c n)"
  have c0: "core es [] ?st0" using assms(1) by (simp add: core_def)
  have "frame d [] ?st0" by (simp add: frame_def)
  from sync_files_rule[where Q = "frame d" and env = env and config = c and fs = fs,
      OF c0 this frame_step] assms(2)
  show "config_file (files w) = config_file d" "hook_file (files w) = hook_file d"
    by (simp_all add: frame_def)
qed


lemma loop_kept:
  assumes "learnings d = Some es"
    and "sync_files env c fs (0, 0, loop_start env d c n) = (s, e, w)"
  shows "kept fs (s, e, w)"
proof -
  let ?st0 = "(0::nat, 0::nat, loop_start env d c n)"
  have c0: "core es [] ?st0" using assms(1) by (simp add: core_def)
  have "kept [] ?st0" by (simp add: kept_def loop_start_def)
  from sync_files_rule[where Q = kept and env = env and config = c and fs = fs,
      OF c0 this kept_step] assms(2)
  show ?thesis by simp
qed

text \<open>With a steady environment the loop removes exactly the records that sync.\<close>

lemma steady_loop:
  assumes st: "steady env" and l: "learnings d = Some es" and dist: "distinct (map fst es)"
    and run: "sync_files env c (json_files es) (0, 0, loop_start env d c n) = (s, e, w)"
  shows "files w =
           d\<lparr>learnings :=
               Some (filter (\<lambda>en. \<not> (endsWith (fst en) ''.json'' \<and> syncs env c (fst en) (snd en))) es)\<rparr>"
    and "e = length (filter (\<lambda>en. endsWith (fst en) ''.json'' \<and> \<not> syncs env c (fst en) (snd en)) es)"
    and "s + e = length (json_files es)"
    and "\<forall>m\<in>set (console w). \<not> is_summary m \<and> m \<noteq> NoLearningsDir \<and> m \<noteq> NoLearningsToSync"
proof -
  note facts = loop_state[OF l run]
  note fr = loop_frame[OF l run]
  have ante: "distinct (json_files es) \<and> set (json_files es) \<subseteq> fst ` set es"
    using distinct_json_files[OF dist] json_files_member[of _ es] by auto
  from facts(5)[OF st] ante
  have del: "\<And>f. deleted (trace w) f \<longleftrightarrow>
        f \<in> set (json_files es) \<and> syncs env c f (the (map_of es f))"
    and e: "e = length (filter (\<lambda>f. \<not> syncs env c f (the (map_of es f))) (json_files es))"
    by (simp_all add: fate_def)
  from facts(1) have ls: "learnings (files w) = Some (filter (\<lambda>en. \<not> deleted (trace w) (fst en)) es)"
    by (simp add: core_def)
  have same: "filter (\<lambda>en. \<not> deleted (trace w) (fst en)) es =
      filter (\<lambda>en. \<not> (endsWith (fst en) ''.json'' \<and> syncs env c (fst en) (snd en))) es"
  proof (rule filter_cong[OF refl])
    fix en assume "en \<in> set es"
    then show "(\<not> deleted (trace w) (fst en)) =
        (\<not> (endsWith (fst en) ''.json'' \<and> syncs env c (fst en) (snd en)))"
      using del[of "fst en"] map_of_distinct_fst[OF dist] json_files_member[of "fst en" es]
      by auto
  qed
  show "files w =
      d\<lparr>learnings :=
          Some (filter (\<lambda>en. \<not> (endsWith (fst en) ''.json'' \<and> syncs env c (fst en) (snd en))) es)\<rparr>"
    using fr ls same by (intro disk_eqI) simp_all
  have "filter (\<lambda>f. \<not> syncs env c f (the (map_of es f))) (json_files es) =
      map fst (filter (\<lambda>en. endsWith (fst en) ''.json'' \<and> \<not> syncs env c (fst en) (snd en)) es)"
  proof -
    have "filter (\<lambda>en. endsWith (fst en) ''.json'' \<and> \<not> syncs env c (fst en) (the (map_of es (fst en)))) es =
        filter (\<lambda>en. endsWith (fst en) ''.json'' \<and> \<not> syncs env c (fst en) (snd en)) es"
      by (rule filter_cong[OF refl]) (simp add: map_of_distinct_fst[OF dist])
    then show ?thesis
      by (simp add: json_files_def filter_map comp_def conj_commute)
  qed
  with e show "e = length (filter (\<lambda>en. endsWith (fst en) ''.json'' \<and> \<not> syncs env c (fst en) (snd en)) es)"
    by simp
  from facts(2) show "s + e = length (json_files es)"
    and "\<forall>m\<in>set (console w). \<not> is_summary m \<and> m \<noteq> NoLearningsDir \<and> m \<noteq> NoLearningsToSync"
    by (simp_all add: counts_def)
qed

section \<open>The phases of a run\<close>

text \<open>
  A run of \<^verbatim>\<open>sync\<close> ends in one of six ways: the configuration does not load, it does
  not validate, the learnings directory is not there, it cannot be listed, it holds no
  record, or the loop runs over its records.
\<close>

lemma load_config_boot:
  "load_config env (boot d) =
     (if fs_error env 0 ReadConfig = None
      then (case config_file d of
              None \<Rightarrow> (Inl (Error ENOENT), \<lparr>files = d, console = [], trace = [Fs ReadConfig False]\<rparr>)
            | Some content \<Rightarrow>
                (case json_config env content of
                   Inl m \<Rightarrow> (Inl (Error m), \<lparr>files = d, console = [], trace = [Fs ReadConfig True]\<rparr>)
                 | Inr c \<Rightarrow> (Inr c, \<lparr>files = d, console = [], trace = [Fs ReadConfig True]\<rparr>)))
      else (Inl (Error (the (fs_error env 0 ReadConfig))),
            \<lparr>files = d, console = [], trace = [Fs ReadConfig False]\<rparr>))"
  by (auto simp: load_config_def readFile_config_def fs_call_def log_event_def boot_def now_def
      split: option.splits sum.splits)

lemma validateConfig_eq:
  "validateConfig env c w =
     ((case check_api_key env c (test_api_key env (now w) (apiKey c)) of
         Inl err \<Rightarrow> Inl (Error (''Configuration validation failed: '' @ message err))
       | Inr u \<Rightarrow> Inr ()),
      log_event (Net (GetTestApiKey (apiKey c)) (status_of (test_api_key env (now w) (apiKey c)))) w)"
  by (simp add: validateConfig_def fetch_test_api_key_def Let_def split: sum.splits)

lemma sync_cases:
  obtains
    (no_config) b where
      "\<nexists>c. loaded env d c"
      "sync env d = (Inr (), \<lparr>files = d, console = [NoConfigFound], trace = [Fs ReadConfig b]\<rparr>)"
  | (invalid) c err where
      "loaded env d c"
      "check_api_key env c (test_api_key env 1 (apiKey c)) = Inl err"
      "sync env d =
         (Inr (), \<lparr>files = d,
            console = [ValidationError (''Configuration validation failed: '' @ message err)],
            trace = [Fs ReadConfig True,
                     Net (GetTestApiKey (apiKey c)) (status_of (test_api_key env 1 (apiKey c)))]\<rparr>)"
  | (no_dir) c where
      "validated env d c"
      "fs_error env 2 AccessLearnings \<noteq> None \<or> learnings d = None"
      "sync env d =
         (Inr (), \<lparr>files = d, console = pre_msgs c @ [NoLearningsDir],
            trace = [Fs ReadConfig True,
                     Net (GetTestApiKey (apiKey c)) (status_of (test_api_key env 1 (apiKey c))),
                     Fs AccessLearnings False]\<rparr>)"
  | (list_failed) c es m where
      "validated env d c"
      "fs_error env 2 AccessLearnings = None" "learnings d = Some es"
      "fs_error env 3 ReaddirLearnings = Some m"
      "sync env d =
         (Inr (), \<lparr>files = d, console = pre_msgs c @ [SyncFailed m],
            trace = [Fs ReadConfig True,
                     Net (GetTestApiKey (apiKey c)) (status_of (test_api_key env 1 (apiKey c))),
                     Fs AccessLearnings True, Fs ReaddirLearnings False]\<rparr>)"
  | (nothing) c es where
      "validated env d c"
      "fs_error env 2 AccessLearnings = None" "learnings d = Some es"
      "fs_error env 3 ReaddirLearnings = None"
      "json_files es = []"
      "sync env d =
         (Inr (), \<lparr>files = d, console = pre_msgs c @ [NoLearningsToSync],
            trace = [Fs ReadConfig True,
                     Net (GetTestApiKey (apiKey c)) (status_of (test_api_key env 1 (apiKey c))),
                     Fs AccessLearnings True, Fs ReaddirLearnings True]\<rparr>)"
  | (loop) c es fs s e w where
      "validated env d c"
      "fs_error env 2 AccessLearnings = None" "learnings d = Some es"
      "fs_error env 3 ReaddirLearnings = None"
      "fs = json_files es" "fs \<noteq> []"
      "sync_files env c fs (0, 0, loop_start env d c (length fs)) = (s, e, w)"
      "sync env d = (Inr (), report_counts s e w)"
proof (cases "\<exists>c. loaded env d c")
  case False
  then have "\<exists>b err. load_config env (boot d) =
      (Inl err, \<lparr>files = d, console = [], trace = [Fs ReadConfig b]\<rparr>)"
    unfolding load_config_boot
    by (auto simp: loaded_def split: option.splits sum.splits)
  then have "\<exists>b. sync env d = (Inr (), \<lparr>files = d, console = [NoConfigFound], trace = [Fs ReadConfig b]\<rparr>)"
    by (auto simp: sync_def sync_action_def sync_body_def print_def)
  then obtain b where "sync env d =
      (Inr (), \<lparr>files = d, console = [NoConfigFound], trace = [Fs ReadConfig b]\<rparr>)" ..
  from no_config[OF False this] show ?thesis .
next
  case True
  then obtain c where c: "loaded env d c" ..
  then obtain content where rd: "fs_error env 0 ReadConfig = None"
      "config_file d = Some content" "json_config env content = Inr c"
    by (auto simp: loaded_def split: option.splits)
  let ?key = "Net (GetTestApiKey (apiKey c)) (status_of (test_api_key env 1 (apiKey c)))"
  let ?w1 = "\<lparr>files = d, console = [], trace = [Fs ReadConfig True]\<rparr>"
  have lc: "load_config env (boot d) = (Inr c, ?w1)"
    using rd by (simp add: load_config_boot)
  have now1: "now ?w1 = 1" by (simp add: now_def)
  show ?thesis
  proof (cases "check_api_key env c (test_api_key env 1 (apiKey c))")
    case (Inl err)
    then have "sync env d =
         (Inr (), \<lparr>files = d,
            console = [ValidationError (''Configuration validation failed: '' @ message err)],
            trace = [Fs ReadConfig True, ?key]\<rparr>)"
      using lc now1
      by (simp add: sync_def sync_action_def sync_body_def validateConfig_eq
          print_def log_event_def)
    from invalid[OF c Inl this] show ?thesis .
  next
    case (Inr u)
    then have v: "validated env d c" using c by (simp add: validated_def)
    let ?w4 = "\<lparr>files = d, console = pre_msgs c, trace = [Fs ReadConfig True, ?key]\<rparr>"
    have body: "sync_body env (boot d) = sync_records env c ?w4"
      using lc now1 Inr
      by (simp add: sync_body_def validateConfig_eq print_def
          log_event_def pre_msgs_def Let_def split: option.splits)
    have now4: "now ?w4 = 2" by (simp add: now_def)
    show ?thesis
    proof (cases "fs_error env 2 AccessLearnings \<noteq> None \<or> learnings d = None")
      case True
      then have "sync env d =
         (Inr (), \<lparr>files = d, console = pre_msgs c @ [NoLearningsDir],
            trace = [Fs ReadConfig True, ?key, Fs AccessLearnings False]\<rparr>)"
        using body now4
        by (auto simp: sync_def sync_action_def sync_records_def access_learnings_def
            fs_call_def print_def log_event_def split: option.splits)
      from no_dir[OF v True this] show ?thesis .
    next
      case False
      then obtain es where acc: "fs_error env 2 AccessLearnings = None" "learnings d = Some es"
        by auto
      let ?w5 = "\<lparr>files = d, console = pre_msgs c,
                  trace = [Fs ReadConfig True, ?key, Fs AccessLearnings True]\<rparr>"
      have a: "access_learnings env ?w4 = (Inr (), ?w5)"
        using acc now4 by (simp add: access_learnings_def fs_call_def log_event_def)
      have now5: "now ?w5 = 3" by (simp add: now_def)
      show ?thesis
      proof (cases "fs_error env 3 ReaddirLearnings")
        case (Some m)
        then have "sync env d =
           (Inr (), \<lparr>files = d, console = pre_msgs c @ [SyncFailed m],
              trace = [Fs ReadConfig True, ?key, Fs AccessLearnings True,
                       Fs ReaddirLearnings False]\<rparr>)"
          using body a now5
          by (simp add: sync_def sync_action_def sync_records_def readdir_learnings_def
              fs_call_def print_def log_event_def)
        from list_failed[OF v acc Some this] show ?thesis .
      next
        case None
        let ?w6 = "\<lparr>files = d, console = pre_msgs c,
                    trace = [Fs ReadConfig True, ?key, Fs AccessLearnings True,
                             Fs ReaddirLearnings True]\<rparr>"
        have r: "readdir_learnings env ?w5 = (Inr (map fst es), ?w6)"
          using None acc now5 by (simp add: readdir_learnings_def fs_call_def log_event_def)
        let ?fs = "json_files es"
        show ?thesis
        proof (cases "?fs = []")
          case True
          then have "sync env d =
             (Inr (), \<lparr>files = d, console = pre_msgs c @ [NoLearningsToSync],
                trace = [Fs ReadConfig True, ?key, Fs AccessLearnings True,
                         Fs ReaddirLearnings True]\<rparr>)"
            using body a r
            by (simp add: sync_def sync_action_def sync_records_def print_def Let_def
                json_files_def)
          note foo = this
          show ?thesis using v acc None True foo by (rule nothing)
        next
          case False
          obtain s e w where loopres:
            "sync_files env c ?fs (0, 0, loop_start env d c (length ?fs)) = (s, e, w)"
            using prod_cases3 by blast
          then have "sync env d = (Inr (), report_counts s e w)"
            using body a r False
            by (simp add: sync_def sync_action_def sync_records_def print_def Let_def
                loop_start_def json_files_def)
          note foo = this
          show ?thesis using v acc None refl False loopres foo by (rule loop)
        qed
      qed
    qed
  qed
qed

subsection \<open>Decimal numerals\<close>

lemma digit_char_inj: "a < 10 \<Longrightarrow> b < 10 \<Longrightarrow> digit_char a = digit_char b \<Longrightarrow> a = b"
  by (simp add: char_of_eq_iff take_bit_eq_mod)

lemma digit_char_not_minus: "a < 10 \<Longrightarrow> digit_char a \<noteq> CHR ''-''"
proof
  assume a: "a < 10" and "digit_char a = CHR ''-''"
  then have "of_char (digit_char a) = (of_char (CHR ''-'') :: nat)" by simp
  with a show False by (simp add: of_char_of take_bit_eq_mod)
qed

lemma string_of_nat_not_Nil: "string_of_nat n \<noteq> []"
  by (subst string_of_nat.simps) simp

lemma string_of_nat_no_minus: "CHR ''-'' \<notin> set (string_of_nat n)"
proof (induction n rule: string_of_nat.induct)
  case (1 n)
  show ?case
  proof (cases "n < 10")
    case True
    then show ?thesis
      using digit_char_not_minus[of n] by (subst string_of_nat.simps) auto
  next
    case False
    have "n mod 10 < 10" by simp
    from digit_char_not_minus[OF this] 1[OF False] False show ?thesis
      by (subst string_of_nat.simps) auto
  qed
qed

lemma string_of_nat_inj: "string_of_nat n = string_of_nat m \<Longrightarrow> n = m"
proof (induction n arbitrary: m rule: string_of_nat.induct)
  case (1 n)
  show ?case
  proof (cases "n < 10")
    case True
    note n = True
    show ?thesis
    proof (cases "m < 10")
      case True
      with n 1(2) show ?thesis
        using digit_char_inj[of n m] by (simp add: string_of_nat.simps[of n] string_of_nat.simps[of m])
    next
      case False
      with n 1(2) string_of_nat_not_Nil[of "m div 10"] show ?thesis
        by (simp add: string_of_nat.simps[of n] string_of_nat.simps[of m] Cons_eq_append_conv)
    qed
  next
    case False
    note n = False
    show ?thesis
    proof (cases "m < 10")
      case True
      with n 1(2) string_of_nat_not_Nil[of "n div 10"] show ?thesis
        by (simp add: string_of_nat.simps[of n] string_of_nat.simps[of m] append_eq_Cons_conv)
    next
      case False
      with n 1(2) have e: "string_of_nat (n div 10) = string_of_nat (m div 10)"
        and d: "digit_char (n mod 10) = digit_char (m mod 10)"
        by (simp_all add: string_of_nat.simps[of n] string_of_nat.simps[of m])
      from 1(1)[OF n e] have q: "n div 10 = m div 10" .
      have "n mod 10 = m mod 10"
        by (rule digit_char_inj[OF _ _ d]) simp_all
      with q show ?thesis by (metis div_mult_mod_eq)
    qed
  qed
qed

lemma string_of_int_inj: "string_of_int i = string_of_int j \<Longrightarrow> i = j"
proof -
  assume a: "string_of_int i = string_of_int j"
  have hd_nat: "hd (string_of_nat k) \<noteq> CHR ''-''" for k
    using string_of_nat_no_minus[of k] string_of_nat_not_Nil[of k]
    by (cases "string_of_nat k") auto
  show ?thesis
  proof (cases "i < 0")
    case True
    note i = True
    show ?thesis
    proof (cases "j < 0")
      case True
      with i a have "string_of_nat (nat (- i)) = string_of_nat (nat (- j))"
        by (simp add: string_of_int_def)
      from string_of_nat_inj[OF this] i True show ?thesis by simp
    next
      case False
      with i a hd_nat[of "nat j"] show ?thesis
        by (auto simp: string_of_int_def dest: arg_cong[where f = hd])
    qed
  next
    case False
    note i = False
    show ?thesis
    proof (cases "j < 0")
      case True
      with i a hd_nat[of "nat i"] show ?thesis
        by (auto simp: string_of_int_def dest: arg_cong[where f = hd])
    next
      case False
      with i a have "string_of_nat (nat i) = string_of_nat (nat j)"
        by (simp add: string_of_int_def)
      from string_of_nat_inj[OF this] i False show ?thesis by simp
    qed
  qed
qed

lemma decimal_of_inj: "decimal_of x = Some s \<Longrightarrow> decimal_of y = Some s \<Longrightarrow> x = y"
proof -
  assume x: "decimal_of x = Some s" and y: "decimal_of y = Some s"
  from x obtain p where p: "x = Finite p" "p = of_int \<lfloor>p\<rfloor>" "s = string_of_int \<lfloor>p\<rfloor>"
    by (auto simp: decimal_of_def split: number.splits if_splits)
  from y obtain q where q: "y = Finite q" "q = of_int \<lfloor>q\<rfloor>" "s = string_of_int \<lfloor>q\<rfloor>"
    by (auto simp: decimal_of_def split: number.splits if_splits)
  from p(3) q(3) have "\<lfloor>p\<rfloor> = \<lfloor>q\<rfloor>" by (auto dest: string_of_int_inj)
  with p(2) q(2) have "p = q" by simp
  with p(1) q(1) show ?thesis by simp
qed

section \<open>Example runs\<close>

lemma example_run:
  "sync example_env example_disk =
     (Inr (),
      \<lparr>files = \<lparr>config_file = Some ''config'',
                 learnings = Some [(''notes.txt'', ''text''), (''b.json'', ''refused''),
                                   (''c.json'', ''{'')],
                 hook_file = None\<rparr>,
        console = [ProjectIdMsg ''7'', Syncing 3, Synced ''f'',
                   FailedToSyncFile ''b.json'' ''Failed to sync f: Server error: 500 - refused'',
                   FailedToSyncFile ''c.json'' ''Unexpected end of JSON input'',
                   SuccessfullySynced 1, FailedToSyncCount 2],
        trace = [Fs ReadConfig True, Net (GetTestApiKey ''key'') (Some 200),
                 Fs AccessLearnings True, Fs ReaddirLearnings True,
                 Fs (ReadLearning ''a.json'') True,
                 Net (PostLearning ''a.json'' ''7'' ''key''
                        (LearningBody ''first'' ''f'' ''lib'' ''d'' ''c'')) (Some 201),
                 Fs (UnlinkLearning ''a.json'') True,
                 Fs (ReadLearning ''b.json'') True,
                 Net (PostLearning ''b.json'' ''7'' ''key''
                        (LearningBody ''refused'' ''f'' ''lib'' ''d'' ''c'')) (Some 500),
                 Fs (ReadLearning ''c.json'') True]\<rparr>)"
  by code_simp

lemma two_run:
  "sync example_env two_disk =
     (Inr (),
      \<lparr>files = \<lparr>config_file = Some ''config'',
                 learnings = Some [(''b.json'', ''refused'')],
                 hook_file = None\<rparr>,
        console = [ProjectIdMsg ''7'', Syncing 2, Synced ''f'',
                   FailedToSyncFile ''b.json'' ''Failed to sync f: Server error: 500 - refused'',
                   SuccessfullySynced 1, FailedToSyncCount 1],
        trace = [Fs ReadConfig True, Net (GetTestApiKey ''key'') (Some 200),
                 Fs AccessLearnings True, Fs ReaddirLearnings True,
                 Fs (ReadLearning ''a.json'') True,
                 Net (PostLearning ''a.json'' ''7'' ''key''
                        (LearningBody ''first'' ''f'' ''lib'' ''d'' ''c'')) (Some 201),
                 Fs (UnlinkLearning ''a.json'') True,
                 Fs (ReadLearning ''b.json'') True,
                 Net (PostLearning ''b.json'' ''7'' ''key''
                        (LearningBody ''refused'' ''f'' ''lib'' ''d'' ''c'')) (Some 500)]\<rparr>)"
  by code_simp

lemma empty_run:
  "sync example_env empty_disk =
     (Inr (),
      \<lparr>files = empty_disk, console = [ProjectIdMsg ''7'', NoLearningsToSync],
        trace = [Fs ReadConfig True, Net (GetTestApiKey ''key'') (Some 200),
                 Fs AccessLearnings True, Fs ReaddirLearnings True]\<rparr>)"
  by code_simp

lemma mismatch_run:
  "sync mismatch_env example_disk =
     (Inr (),
      \<lparr>files = example_disk,
        console = [ValidationError ''Configuration validation failed: Config mismatch: API key does not match user ID or project ID''],
        trace = [Fs ReadConfig True, Net (GetTestApiKey ''key'') (Some 200)]\<rparr>)"
  by code_simp


section \<open>The claims\<close>

subsection \<open>C1: what a run deletes and what it keeps\<close>

text \<open>
  C1, as amended. Take any directory of pending records (its names distinct, as the names
  of a directory are) and any run of \<^verbatim>\<open>sync\<close>. At the end of the run
  \<^enum> a record whose submission received a response with a status in the 2xx range, and
    whose deletion did not fail, is absent from the directory;
  \<^enum> a record whose submission received no response, or a status outside the 2xx range,
    is still in the directory with the content it had;
  \<^enum> a record whose content does not parse is still in the directory with the content it
    had;
  \<^enum> a record whose deletion failed is still in the directory with the content it had.
  The amendment is the proviso on the deletion in the first item, and the last item.
\<close>

theorem sync_deletes_accepted:
  assumes "learnings d = Some es" and "distinct (map fst es)"
  shows "\<exists>es'. learnings (files (snd (sync env d))) = Some es' \<and>
     (\<forall>f pid key body n.
        Net (PostLearning f pid key body) (Some n) \<in> set (trace (snd (sync env d))) \<and> ok n \<and>
        Fs (UnlinkLearning f) False \<notin> set (trace (snd (sync env d)))
        \<longrightarrow> f \<notin> fst ` set es') \<and>
     (\<forall>f c pid key body st.
        (f, c) \<in> set es \<and>
        Net (PostLearning f pid key body) st \<in> set (trace (snd (sync env d))) \<and>
        (case st of None \<Rightarrow> True | Some n \<Rightarrow> \<not> ok n)
        \<longrightarrow> (f, c) \<in> set es') \<and>
     (\<forall>f c. (f, c) \<in> set es \<and> isl (json_learning env c) \<longrightarrow> (f, c) \<in> set es') \<and>
     (\<forall>f c. (f, c) \<in> set es \<and> Fs (UnlinkLearning f) False \<in> set (trace (snd (sync env d)))
        \<longrightarrow> (f, c) \<in> set es')"
proof (cases rule: sync_cases[of env d])
  case (no_config b)
  with assms(1) show ?thesis by simp
next
  case (invalid c err)
  with assms(1) show ?thesis by simp
next
  case (no_dir c)
  with assms(1) show ?thesis by simp
next
  case (list_failed c es' m)
  with assms(1) show ?thesis by simp
next
  case (nothing c es')
  with assms(1) show ?thesis by simp
next
  case (loop c es' fs s e w)
  from loop(3) assms(1) have [simp]: "es' = es" by simp
  note st = loop_state[OF assms(1) loop(7)[unfolded \<open>es' = es\<close>]]
  let ?tr = "trace w"
  let ?left = "filter (\<lambda>en. \<not> deleted ?tr (fst en)) es"
  from st(1) have ls: "learnings (files w) = Some ?left"
    by (simp add: core_def)
  from loop(5) have dfs: "distinct fs" using distinct_json_files[OF assms(2)] by simp
  from st(3) dfs have r1: "\<And>f. ok_posted f ?tr \<Longrightarrow>
        Fs (UnlinkLearning f) True \<in> set ?tr \<or> Fs (UnlinkLearning f) False \<in> set ?tr"
    and r2: "\<And>f. deleted ?tr f \<Longrightarrow> \<exists>c l. map_of es f = Some c \<and> json_learning env c = Inr l"
    and r3: "\<And>f. failed_posted f ?tr \<Longrightarrow> \<not> deleted ?tr f"
    by (simp_all add: responses_def)
  have a: "f \<notin> fst ` set ?left"
    if "Net (PostLearning f pid key body) (Some n) \<in> set ?tr" "ok n"
      "Fs (UnlinkLearning f) False \<notin> set ?tr" for f pid key body n
  proof -
    from that(1,2) have "ok_posted f ?tr" by (auto simp: ok_posted_def)
    from r1[OF this] that(3) have "deleted ?tr f" by (simp add: deleted_def)
    then show ?thesis by auto
  qed
  have b: "(f, c) \<in> set ?left"
    if "(f, c) \<in> set es" "Net (PostLearning f pid key body) st \<in> set ?tr"
      "case st of None \<Rightarrow> True | Some n \<Rightarrow> \<not> ok n" for f c pid key body st
  proof -
    from that(2,3) have "failed_posted f ?tr" by (auto simp: failed_posted_def)
    from r3[OF this] that(1) show ?thesis by simp
  qed
  have c: "(f, c) \<in> set ?left" if "(f, c) \<in> set es" "isl (json_learning env c)" for f c
  proof -
    from that(1) assms(2) have m: "map_of es f = Some c" by simp
    have "\<not> deleted ?tr f"
    proof
      assume "deleted ?tr f"
      from r2[OF this] m that(2) show False by auto
    qed
    with that(1) show ?thesis by simp
  qed
  have A: "\<forall>f pid key body n.
        Net (PostLearning f pid key body) (Some n) \<in> set ?tr \<and> ok n \<and>
        Fs (UnlinkLearning f) False \<notin> set ?tr
        \<longrightarrow> f \<notin> fst ` set ?left"
    by (intro allI impI, elim conjE) (rule a; assumption)
  have B: "\<forall>f c pid key body st.
        (f, c) \<in> set es \<and>
        Net (PostLearning f pid key body) st \<in> set ?tr \<and>
        (case st of None \<Rightarrow> True | Some n \<Rightarrow> \<not> ok n)
        \<longrightarrow> (f, c) \<in> set ?left"
    by (intro allI impI, elim conjE) (rule b; assumption)
  have C: "\<forall>f c. (f, c) \<in> set es \<and> isl (json_learning env c) \<longrightarrow> (f, c) \<in> set ?left"
    by (intro allI impI, elim conjE) (rule c; assumption)
  from loop_kept[OF assms(1) loop(7)[unfolded \<open>es' = es\<close>]] dfs
  have r4: "\<And>f. Fs (UnlinkLearning f) False \<in> set ?tr \<Longrightarrow> \<not> deleted ?tr f"
    by (simp add: kept_def)
  have d': "(f, c) \<in> set ?left"
    if "(f, c) \<in> set es" "Fs (UnlinkLearning f) False \<in> set ?tr" for f c
    using r4[OF that(2)] that(1) by simp
  have D: "\<forall>f c. (f, c) \<in> set es \<and> Fs (UnlinkLearning f) False \<in> set ?tr \<longrightarrow> (f, c) \<in> set ?left"
    by (intro allI impI, elim conjE) (rule d'; assumption)
  have "snd (sync env d) = report_counts s e w" using loop(8) by simp
  then have tr: "trace (snd (sync env d)) = ?tr"
    and fl: "learnings (files (snd (sync env d))) = Some ?left"
    using ls by simp_all
  show ?thesis
    unfolding tr fl using A B C D by (intro exI[of _ ?left] conjI refl)
qed

theorem sync_deletes_accepted_witness:
  "learnings example_disk =
     Some [(''a.json'', ''first''), (''notes.txt'', ''text''), (''b.json'', ''refused''), (''c.json'', ''{'')] \<and>
   distinct (map fst [(''a.json'', ''first''), (''notes.txt'', ''text''), (''b.json'', ''refused''),
                      (''c.json'', ''{'')]) \<and>
   Net (PostLearning ''a.json'' ''7'' ''key'' (LearningBody ''first'' ''f'' ''lib'' ''d'' ''c'')) (Some 201)
     \<in> set (trace (snd (sync example_env example_disk))) \<and>
   ok 201 \<and>
   Fs (UnlinkLearning ''a.json'') False \<notin> set (trace (snd (sync example_env example_disk))) \<and>
   ''a.json'' \<notin> fst ` set (the (learnings (files (snd (sync example_env example_disk))))) \<and>
   Net (PostLearning ''b.json'' ''7'' ''key'' (LearningBody ''refused'' ''f'' ''lib'' ''d'' ''c'')) (Some 500)
     \<in> set (trace (snd (sync example_env example_disk))) \<and>
   \<not> ok 500 \<and>
   (''b.json'', ''refused'') \<in> set (the (learnings (files (snd (sync example_env example_disk))))) \<and>
   isl (json_learning example_env ''{'') \<and>
   (''c.json'', ''{'') \<in> set (the (learnings (files (snd (sync example_env example_disk))))) \<and>
   learnings single_disk = Some [(''a.json'', ''first'')] \<and>
   Fs (UnlinkLearning ''a.json'') False \<in> set (trace (snd (sync stubborn_env single_disk))) \<and>
   (''a.json'', ''first'') \<in> set (the (learnings (files (snd (sync stubborn_env single_disk)))))"
proof -
  let ?es = "[(''a.json'', ''first''), (''notes.txt'', ''text''), (''b.json'', ''refused''), (''c.json'', ''{'')]"
  let ?w = "snd (sync example_env example_disk)"
  have h1: "learnings example_disk = Some ?es" by (simp add: example_disk_def)
  have h2: "distinct (map fst ?es)" by code_simp
  have a1: "Net (PostLearning ''a.json'' ''7'' ''key'' (LearningBody ''first'' ''f'' ''lib'' ''d'' ''c'')) (Some 201)
     \<in> set (trace ?w)" by code_simp
  have a2: "ok 201" by code_simp
  have a3: "Fs (UnlinkLearning ''a.json'') False \<notin> set (trace ?w)" by code_simp
  have b1: "Net (PostLearning ''b.json'' ''7'' ''key'' (LearningBody ''refused'' ''f'' ''lib'' ''d'' ''c'')) (Some 500)
     \<in> set (trace ?w)" by code_simp
  have b2: "\<not> ok 500" by code_simp
  have b0: "(''b.json'', ''refused'') \<in> set ?es" by simp
  have c1: "isl (json_learning example_env ''{'')" by code_simp
  have c0: "(''c.json'', ''{'') \<in> set ?es" by simp
  from sync_deletes_accepted[OF h1 h2, of example_env]
  obtain es' where e: "learnings (files ?w) = Some es'"
    and i: "\<forall>f pid key body n.
        Net (PostLearning f pid key body) (Some n) \<in> set (trace ?w) \<and> ok n \<and>
        Fs (UnlinkLearning f) False \<notin> set (trace ?w)
        \<longrightarrow> f \<notin> fst ` set es'"
    and ii: "\<forall>f c pid key body st.
        (f, c) \<in> set ?es \<and>
        Net (PostLearning f pid key body) st \<in> set (trace ?w) \<and>
        (case st of None \<Rightarrow> True | Some n \<Rightarrow> \<not> ok n)
        \<longrightarrow> (f, c) \<in> set es'"
    and iii: "\<forall>f c. (f, c) \<in> set ?es \<and> isl (json_learning example_env c) \<longrightarrow> (f, c) \<in> set es'"
    and iv: "\<forall>f c. (f, c) \<in> set ?es \<and> Fs (UnlinkLearning f) False \<in> set (trace ?w)
        \<longrightarrow> (f, c) \<in> set es'"
    by (elim exE conjE)
  from e have the_es: "the (learnings (files ?w)) = es'" by simp
  have a: "''a.json'' \<notin> fst ` set es'"
    using i[rule_format, OF conjI[OF a1 conjI[OF a2 a3]]] .
  have b2': "case Some 500 of None \<Rightarrow> True | Some n \<Rightarrow> \<not> ok n" using b2 by simp
  have b: "(''b.json'', ''refused'') \<in> set es'"
    using ii[rule_format, OF conjI[OF b0 conjI[OF b1 b2']]] .
  have c: "(''c.json'', ''{'') \<in> set es'"
    using iii[rule_format, OF conjI[OF c0 c1]] .
  let ?v = "snd (sync stubborn_env single_disk)"
  have k1: "learnings single_disk = Some [(''a.json'', ''first'')]" by (simp add: single_disk_def)
  have k2: "distinct (map fst [(''a.json'', ''first'')])" by simp
  have d0: "(''a.json'', ''first'') \<in> set [(''a.json'', ''first'')]" by simp
  have d1: "Fs (UnlinkLearning ''a.json'') False \<in> set (trace ?v)" by code_simp
  from sync_deletes_accepted[OF k1 k2, of stubborn_env]
  obtain es'' where e': "learnings (files ?v) = Some es''"
    and iv': "\<forall>f c. (f, c) \<in> set [(''a.json'', ''first'')] \<and>
        Fs (UnlinkLearning f) False \<in> set (trace ?v) \<longrightarrow> (f, c) \<in> set es''"
    by (elim exE conjE)
  from e' have the_es': "the (learnings (files ?v)) = es''" by simp
  have d: "(''a.json'', ''first'') \<in> set es''"
    using iv'[rule_format, OF conjI[OF d0 d1]] .
  show ?thesis
    unfolding the_es the_es' by (intro conjI h1 h2 a1 a2 a3 a b1 b2 b c1 c k1 d1 d)
qed

text \<open>
  Without the proviso the first item fails: the remote service answers 201, the file
  system refuses to delete the file, and the record is still pending at the end of the
  run, reported as failed.
\<close>

theorem sync_deletes_accepted_counterexample:
  "learnings single_disk = Some [(''a.json'', ''first'')] \<and>
   ok 201 \<and>
   sync stubborn_env single_disk =
     (Inr (),
      \<lparr>files = single_disk,
        console = [ProjectIdMsg ''7'', Syncing 1,
                   FailedToSyncFile ''a.json'' ''Failed to sync f: EACCES: permission denied'',
                   FailedToSyncCount 1],
        trace = [Fs ReadConfig True, Net (GetTestApiKey ''key'') (Some 200),
                 Fs AccessLearnings True, Fs ReaddirLearnings True,
                 Fs (ReadLearning ''a.json'') True,
                 Net (PostLearning ''a.json'' ''7'' ''key''
                        (LearningBody ''first'' ''f'' ''lib'' ''d'' ''c'')) (Some 201),
                 Fs (UnlinkLearning ''a.json'') False]\<rparr>)"
  by code_simp

subsection \<open>C2: the reported counts\<close>

text \<open>
  C2, as amended. Take a run of \<^verbatim>\<open>sync\<close> that lists a directory in which the local side
  works: the names are distinct, the file system refuses no read and no deletion of a
  record file, and every \<^verbatim>\<open>.json\<close> file parses. Let \<open>N\<close> be the number of enumerated
  records and \<open>k\<close> the number of submissions that failed (no response, or a status
  outside the 2xx range). Then \<open>k \<le> N\<close>, the reported succeeded count is \<open>N - k\<close>, the
  reported failed count is \<open>k\<close> (a count of 0 is reported by leaving its line out), and
  the directory at the end holds \<open>N - k\<close> entries fewer, all of them entries it held.
  The amendment is the condition on the local side.
\<close>

theorem sync_counts:
  assumes "learnings d = Some es" and "local_ok env es"
    and "Fs ReaddirLearnings True \<in> set (trace (snd (sync env d)))"
  shows "length (filter failed_submission (trace (snd (sync env d)))) \<le> length (json_files es) \<and>
         reported_succeeded (console (snd (sync env d))) =
           length (json_files es) - length (filter failed_submission (trace (snd (sync env d)))) \<and>
         reported_failed (console (snd (sync env d))) =
           length (filter failed_submission (trace (snd (sync env d)))) \<and>
         (\<exists>es'. learnings (files (snd (sync env d))) = Some es' \<and> set es' \<subseteq> set es \<and>
            length es' =
              length es -
                (length (json_files es) - length (filter failed_submission (trace (snd (sync env d))))))"
proof (cases rule: sync_cases[of env d])
  case (no_config b)
  with assms(3) show ?thesis by simp
next
  case (invalid c err)
  with assms(3) show ?thesis by simp
next
  case (no_dir c)
  with assms(3) show ?thesis by simp
next
  case (list_failed c es' m)
  with assms(3) show ?thesis by simp
next
  case (nothing c es')
  with assms(1) show ?thesis by simp
next
  case (loop c es' fs s e w)
  from loop(3) assms(1) have [simp]: "es' = es" by simp
  note st = loop_state[OF assms(1) loop(7)[unfolded \<open>es' = es\<close>]]
  from assms(2) have d: "distinct (map fst es)" by (simp add: local_ok_def)
  from loop(5) have ante: "distinct fs \<and> (\<forall>f\<in>set fs. endsWith f ''.json'' \<and> f \<in> fst ` set es)"
    using distinct_json_files[OF d] json_files_member[of _ es] by simp
  from st(4)[OF assms(2)] ante
  have e: "e = length (filter failed_submission (trace w))"
    and len: "length (the (learnings (files w))) + s = length es"
    by (simp_all add: exact_def)
  from st(2) have n: "s + e = length fs"
    and plain: "\<forall>m\<in>set (console w). \<not> is_summary m"
    by (simp_all add: counts_def)
  from st(1) have ls: "learnings (files w) = Some (filter (\<lambda>en. \<not> deleted (trace w) (fst en)) es)"
    by (simp add: core_def)
  have sub: "set (filter (\<lambda>en. \<not> deleted (trace w) (fst en)) es) \<subseteq> set es" by auto
  from reported_after_loop[OF plain, of s e] e len n ls sub loop(5,8)
  show ?thesis by simp arith
qed

theorem sync_counts_witness:
  "learnings two_disk = Some [(''a.json'', ''first''), (''b.json'', ''refused'')] \<and>
   local_ok example_env [(''a.json'', ''first''), (''b.json'', ''refused'')] \<and>
   Fs ReaddirLearnings True \<in> set (trace (snd (sync example_env two_disk))) \<and>
   length (json_files [(''a.json'', ''first''), (''b.json'', ''refused'')]) = 2 \<and>
   length (filter failed_submission (trace (snd (sync example_env two_disk)))) = 1 \<and>
   reported_succeeded (console (snd (sync example_env two_disk))) = 1 \<and>
   reported_failed (console (snd (sync example_env two_disk))) = 1 \<and>
   learnings (files (snd (sync example_env two_disk))) = Some [(''b.json'', ''refused'')]"
proof -
  let ?es = "[(''a.json'', ''first''), (''b.json'', ''refused'')]"
  let ?w = "snd (sync example_env two_disk)"
  have h1: "learnings two_disk = Some ?es" by (simp add: two_disk_def)
  have d: "distinct (map fst ?es)" by code_simp
  have p: "\<forall>en\<in>set ?es. endsWith (fst en) ''.json'' \<longrightarrow> \<not> isl (json_learning example_env (snd en))"
    by code_simp
  have h2: "local_ok example_env ?es"
    unfolding local_ok_def using d p by (simp add: example_env_def)
  have h3: "Fs ReaddirLearnings True \<in> set (trace ?w)" by code_simp
  have n: "length (json_files ?es) = 2" by code_simp
  have k: "length (filter failed_submission (trace ?w)) = 1" by code_simp
  have l: "learnings (files ?w) = Some [(''b.json'', ''refused'')]" by code_simp
  note T = sync_counts[OF h1 h2 h3]
  from T have s: "reported_succeeded (console ?w) = 1" unfolding n k by simp
  from T have f: "reported_failed (console ?w) = 1" unfolding n k by simp
  show ?thesis by (intro conjI h1 h2 h3 n k s f l)
qed

text \<open>
  Without the condition the counts differ: of two records the remote service accepts one
  and refuses one (\<open>N = 2\<close>, \<open>k = 1\<close>), the file system refuses to delete the accepted one,
  and the run reports no success, two failures, and removes no file.
\<close>

theorem sync_counts_counterexample:
  "length (json_files (the (learnings two_disk))) = 2 \<and>
   length (filter failed_submission (trace (snd (sync stubborn_env two_disk)))) = 1 \<and>
   reported_succeeded (console (snd (sync stubborn_env two_disk))) = 0 \<and>
   reported_failed (console (snd (sync stubborn_env two_disk))) = 2 \<and>
   files (snd (sync stubborn_env two_disk)) = two_disk \<and>
   trace (snd (sync stubborn_env two_disk)) =
     [Fs ReadConfig True, Net (GetTestApiKey ''key'') (Some 200),
      Fs AccessLearnings True, Fs ReaddirLearnings True,
      Fs (ReadLearning ''a.json'') True,
      Net (PostLearning ''a.json'' ''7'' ''key''
             (LearningBody ''first'' ''f'' ''lib'' ''d'' ''c'')) (Some 201),
      Fs (UnlinkLearning ''a.json'') False,
      Fs (ReadLearning ''b.json'') True,
      Net (PostLearning ''b.json'' ''7'' ''key''
             (LearningBody ''refused'' ''f'' ''lib'' ''d'' ''c'')) (Some 500)]"
  by code_simp

subsection \<open>C3: a configuration that the remote service does not confirm\<close>

text \<open>
  C3, as amended. Let the stored configuration parse to \<open>c\<close>, and let the validation
  endpoint answer, with a status in the 2xx range, a user identifier that differs from
  the stored one, or a project identifier that differs from the number that \<^verbatim>\<open>parseInt\<close>
  reads from the stored project identifier. Then \<^verbatim>\<open>validateConfig\<close> fails with the
  configuration-mismatch error, and a run of \<^verbatim>\<open>sync\<close> ends normally, leaves the disk as
  it was and performs no operation on any record file (no read, no submission, no
  deletion); when the configuration file is read, all it prints is the mismatch error.
  The amendment is that the stored project identifier counts as \<^verbatim>\<open>parseInt\<close> reads it.
\<close>

theorem mismatch_stops_sync:
  assumes "config_file d = Some content" "json_config env content = Inr c"
    and "\<forall>i. test_api_key env i (apiKey c) = Response n (Inr (TestApiKeyUser uid pid))"
    and "ok n"
    and "uid \<noteq> userId c \<or> Some pid \<noteq> parse_int env (projectId c)"
  shows "fst (validateConfig env c w) =
           Inl (Error ''Configuration validation failed: Config mismatch: API key does not match user ID or project ID'') \<and>
         fst (sync env d) = Inr () \<and>
         files (snd (sync env d)) = d \<and>
         (\<forall>ev\<in>set (trace (snd (sync env d))). record_of ev = None) \<and>
         (fs_error env 0 ReadConfig = None \<longrightarrow>
            console (snd (sync env d)) =
              [ValidationError ''Configuration validation failed: Config mismatch: API key does not match user ID or project ID''])"
proof -
  have chk: "check_api_key env c (test_api_key env i (apiKey c)) =
      Inl (Error ''Config mismatch: API key does not match user ID or project ID'')" for i
    using assms(3,4,5) by (auto simp: check_api_key_def)
  have v: "fst (validateConfig env c w) =
      Inl (Error ''Configuration validation failed: Config mismatch: API key does not match user ID or project ID'')"
    by (simp add: validateConfig_eq chk)
  have only: "c' = c" if "loaded env d c'" for c'
    using that assms(1,2) by (auto simp: loaded_def)
  have rest: "fst (sync env d) = Inr () \<and>
         files (snd (sync env d)) = d \<and>
         (\<forall>ev\<in>set (trace (snd (sync env d))). record_of ev = None) \<and>
         (fs_error env 0 ReadConfig = None \<longrightarrow>
            console (snd (sync env d)) =
              [ValidationError ''Configuration validation failed: Config mismatch: API key does not match user ID or project ID''])"
  proof (cases rule: sync_cases[of env d])
    case (no_config b)
    then show ?thesis using assms(1,2) by (auto simp: loaded_def)
  next
    case (invalid c' err)
    with only[of c'] chk[of 1] show ?thesis by auto
  next
    case (no_dir c')
    with only[of c'] chk[of 1] show ?thesis by (simp add: validated_def)
  next
    case (list_failed c' es m)
    with only[of c'] chk[of 1] show ?thesis by (simp add: validated_def)
  next
    case (nothing c' es)
    with only[of c'] chk[of 1] show ?thesis by (simp add: validated_def)
  next
    case (loop c' es fs s e w)
    with only[of c'] chk[of 1] show ?thesis by (simp add: validated_def)
  qed
  from v rest show ?thesis by blast
qed

theorem mismatch_stops_sync_witness:
  "config_file example_disk = Some ''config'' \<and>
   json_config mismatch_env ''config'' = Inr example_config \<and>
   (\<forall>i. test_api_key mismatch_env i (apiKey example_config) =
          Response 200 (Inr (TestApiKeyUser (Finite 3) (Finite 8)))) \<and>
   ok 200 \<and>
   parse_int mismatch_env (projectId example_config) = Some (Finite 7) \<and>
   Some (Finite 8) \<noteq> parse_int mismatch_env (projectId example_config) \<and>
   fst (validateConfig mismatch_env example_config (boot example_disk)) =
     Inl (Error ''Configuration validation failed: Config mismatch: API key does not match user ID or project ID'') \<and>
   sync mismatch_env example_disk =
     (Inr (),
      \<lparr>files = example_disk,
        console = [ValidationError ''Configuration validation failed: Config mismatch: API key does not match user ID or project ID''],
        trace = [Fs ReadConfig True, Net (GetTestApiKey ''key'') (Some 200)]\<rparr>)"
proof -
  have h1: "config_file example_disk = Some ''config''" by (simp add: example_disk_def)
  have h2: "json_config mismatch_env ''config'' = Inr example_config"
    by (simp add: mismatch_env_def example_env_def)
  have h3: "\<forall>i. test_api_key mismatch_env i (apiKey example_config) =
      Response 200 (Inr (TestApiKeyUser (Finite 3) (Finite 8)))"
    by (simp add: mismatch_env_def example_env_def)
  have h4: "ok 200" by (simp add: ok_def)
  have p: "parse_int mismatch_env (projectId example_config) = Some (Finite 7)"
    by (simp add: mismatch_env_def example_env_def example_config_def)
  have q: "Some (Finite 8) \<noteq> parse_int mismatch_env (projectId example_config)"
    unfolding p by simp
  then have h5: "Finite 3 \<noteq> userId example_config \<or>
      Some (Finite 8) \<noteq> parse_int mismatch_env (projectId example_config)" ..
  note T = mismatch_stops_sync[OF h1 h2 h3 h4 h5, of "boot example_disk"]
  from T have v: "fst (validateConfig mismatch_env example_config (boot example_disk)) =
     Inl (Error ''Configuration validation failed: Config mismatch: API key does not match user ID or project ID'')"
    by (rule conjunct1)
  show ?thesis by (intro conjI h1 h2 h3 h4 p q v mismatch_run)
qed

text \<open>
  Read as identifiers, the stored pair and the returned pair may differ while the
  comparison of the program finds them equal. The stored project identifier is
  \<^verbatim>\<open>'7abc'\<close>, the remote service associates the API key with user 3 and project 7, and
  \<^verbatim>\<open>parseInt('7abc')\<close> is 7: \<^verbatim>\<open>validateConfig\<close> succeeds, and the run submits the
  pending record, under the stored identifier, and deletes it.
\<close>

theorem mismatch_stops_sync_counterexample:
  "config_file single_disk = Some ''config'' \<and>
   json_config trailing_env ''config'' = Inr trailing_config \<and>
   projectId trailing_config = ''7abc'' \<and>
   userId trailing_config = Finite 3 \<and>
   test_api_key trailing_env 1 (apiKey trailing_config) =
     Response 200 (Inr (TestApiKeyUser (Finite 3) (Finite 7))) \<and>
   parse_int trailing_env ''7abc'' = Some (Finite 7) \<and>
   fst (validateConfig trailing_env trailing_config (boot single_disk)) = Inr () \<and>
   sync trailing_env single_disk =
     (Inr (),
      \<lparr>files = \<lparr>config_file = Some ''config'', learnings = Some [], hook_file = None\<rparr>,
        console = [ProjectIdMsg ''7abc'', Syncing 1, Synced ''f'', SuccessfullySynced 1],
        trace = [Fs ReadConfig True, Net (GetTestApiKey ''key'') (Some 200),
                 Fs AccessLearnings True, Fs ReaddirLearnings True,
                 Fs (ReadLearning ''a.json'') True,
                 Net (PostLearning ''a.json'' ''7abc'' ''key''
                        (LearningBody ''first'' ''f'' ''lib'' ''d'' ''c'')) (Some 201),
                 Fs (UnlinkLearning ''a.json'') True]\<rparr>)"
  by code_simp

subsection \<open>C4: a failing record does not abort the batch\<close>



subsection \<open>C5: nothing to sync\<close>

text \<open>
  C5, as amended. In every state in which the learnings directory is absent, or holds no
  \<^verbatim>\<open>.json\<close> file, a run of \<^verbatim>\<open>sync\<close> ends normally, leaves the disk as it was, performs no
  operation on a record file (so no submission) and reports no success and no failure.
  Provided the configuration loads and validates and the listing of the directory (the
  operation 3 of the run) is not refused, the last message it prints is one of the two
  nothing-to-sync messages. The amendment is that proviso.
\<close>

theorem nothing_pending:
  assumes "learnings d = None \<or>
           (\<exists>es. learnings d = Some es \<and> json_files es = [])"
  shows "fst (sync env d) = Inr () \<and>
         files (snd (sync env d)) = d \<and>
         (\<forall>ev\<in>set (trace (snd (sync env d))). record_of ev = None \<and> \<not> is_submission ev) \<and>
         reported_succeeded (console (snd (sync env d))) = 0 \<and>
         reported_failed (console (snd (sync env d))) = 0 \<and>
         ((\<exists>c. validated env d c) \<and> fs_error env 3 ReaddirLearnings = None \<longrightarrow>
            last (console (snd (sync env d))) = NoLearningsDir \<or>
            last (console (snd (sync env d))) = NoLearningsToSync)"
proof (cases rule: sync_cases[of env d])
  case (no_config b)
  from no_config(1) have "\<not> (\<exists>c. validated env d c)"
    by (simp add: validated_def)
  with no_config(2) show ?thesis by simp
next
  case (invalid c err)
  have "\<not> validated env d c'" for c'
    using loaded_unique[OF invalid(1), of c'] invalid(2) by (auto simp: validated_def)
  then have "\<not> (\<exists>c. validated env d c)" by blast
  with invalid(3) show ?thesis by simp
next
  case (no_dir c)
  then show ?thesis by simp
next
  case (list_failed c es m)
  then show ?thesis by simp
next
  case (nothing c es)
  then show ?thesis by simp
next
  case (loop c es fs s e w)
  with assms show ?thesis by simp
qed

theorem nothing_pending_witness:
  "learnings empty_disk = Some [(''notes.txt'', ''text'')] \<and>
   json_files [(''notes.txt'', ''text'')] = [] \<and>
   validated example_env empty_disk example_config \<and>
   fs_error example_env 3 ReaddirLearnings = None \<and>
   (last (console (snd (sync example_env empty_disk))) = NoLearningsDir \<or>
    last (console (snd (sync example_env empty_disk))) = NoLearningsToSync) \<and>
   sync example_env empty_disk =
     (Inr (),
      \<lparr>files = empty_disk, console = [ProjectIdMsg ''7'', NoLearningsToSync],
        trace = [Fs ReadConfig True, Net (GetTestApiKey ''key'') (Some 200),
                 Fs AccessLearnings True, Fs ReaddirLearnings True]\<rparr>)"
proof -
  have h1: "learnings empty_disk = Some [(''notes.txt'', ''text'')]"
    by (simp add: empty_disk_def)
  have h2: "json_files [(''notes.txt'', ''text'')] = []"
    by code_simp
  have h3: "validated example_env empty_disk example_config"
    by code_simp
  have h4: "fs_error example_env 3 ReaddirLearnings = None"
    by (simp add: example_env_def)
  from h1 h2 have h: "learnings empty_disk = None \<or>
      (\<exists>es. learnings empty_disk = Some es \<and>
            json_files es = [])"
    by (intro disjI2 exI conjI)
  from h3 have ex: "\<exists>c. validated example_env empty_disk c" ..
  have q: "last (console (snd (sync example_env empty_disk))) = NoLearningsDir \<or>
    last (console (snd (sync example_env empty_disk))) = NoLearningsToSync"
    using nothing_pending[OF h, of example_env] ex h4 by blast
  show ?thesis
    by (intro conjI h1 h2 h3 h4 q empty_run)
qed

text \<open>
  Without the proviso the run reports something else. The configuration loads and
  validates, the learnings directory exists and holds no \<^verbatim>\<open>.json\<close> file, and the file
  system refuses to list it: the run reports the failure of the listing, and neither of
  the nothing-to-sync messages.
\<close>

theorem nothing_pending_counterexample:
  "learnings empty_disk = Some [(''notes.txt'', ''text'')] \<and>
   json_files [(''notes.txt'', ''text'')] = [] \<and>
   validated unreadable_env empty_disk example_config \<and>
   sync unreadable_env empty_disk =
     (Inr (),
      \<lparr>files = empty_disk,
        console = [ProjectIdMsg ''7'', SyncFailed ''EACCES: permission denied''],
        trace = [Fs ReadConfig True, Net (GetTestApiKey ''key'') (Some 200),
                 Fs AccessLearnings True, Fs ReaddirLearnings False]\<rparr>) \<and>
   \<not> nothing_to_sync (console (snd (sync unreadable_env empty_disk)))"
  by code_simp

subsection \<open>C6: the configuration validator\<close>

text \<open>
  C6, as amended. Let the stored project identifier be the decimal numeral of the number
  that \<^verbatim>\<open>parseInt\<close> reads from it. Then \<^verbatim>\<open>validateConfig\<close> sends the validation request
  with the stored API key (one entry of the trace; disk and console stay as they are) and
  then fails or succeeds as the \<^verbatim>\<open>validate\<close> of the specification does on the answer:
  with the configuration-mismatch error when the returned user or project identifier
  disagrees with the stored one, with the validation-failed error wrapping the message of
  the underlying failure when the request fails, and with success otherwise. The
  amendment is the condition on the stored project identifier.
\<close>

theorem validateConfig_refines:
  assumes "reads_numeral env config"
  shows "validateConfig env config w =
     (map_sum thrown id (validate_spec config (test_api_key env (now w) (apiKey config))),
      log_event (Net (GetTestApiKey (apiKey config))
                   (status_of (test_api_key env (now w) (apiKey config)))) w)"
proof -
  from assms obtain x where px: "parse_int env (projectId config) = Some x"
    and dx: "decimal_of x = Some (projectId config)"
    by (auto simp: reads_numeral_def split: option.splits)
  have same: "Some pid \<noteq> parse_int env (projectId config) \<longleftrightarrow>
      decimal_of pid \<noteq> Some (projectId config)" for pid
  proof (cases "pid = x")
    case True
    then show ?thesis using px dx by simp
  next
    case False
    have "decimal_of pid \<noteq> Some (projectId config)"
    proof
      assume "decimal_of pid = Some (projectId config)"
      from decimal_of_inj[OF this dx] False show False by simp
    qed
    with False px show ?thesis by simp
  qed
  have "map_sum thrown id (validate_spec config res) =
      (case check_api_key env config res of
         Inl err \<Rightarrow> Inl (Error (''Configuration validation failed: '' @ message err))
       | Inr u \<Rightarrow> Inr ())" for res
    by (cases res)
      (simp_all add: check_api_key_def validate_spec_def validateApiKey_spec_def same
        split: sum.splits TestApiKeyResponse.splits)
  then show ?thesis
    by (simp add: validateConfig_eq split: sum.splits)
qed

theorem validateConfig_refines_witness:
  "reads_numeral mismatch_env example_config \<and>
   reads_numeral example_env example_config \<and>
   validate_spec example_config (test_api_key mismatch_env 0 ''key'') = Inl ConfigMismatch \<and>
   validate_spec example_config (test_api_key example_env 0 ''key'') = Inr () \<and>
   validateConfig mismatch_env example_config (boot example_disk) =
     (Inl (Error ''Configuration validation failed: Config mismatch: API key does not match user ID or project ID''),
      \<lparr>files = example_disk, console = [], trace = [Net (GetTestApiKey ''key'') (Some 200)]\<rparr>) \<and>
   validateConfig example_env example_config (boot example_disk) =
     (Inr (),
      \<lparr>files = example_disk, console = [], trace = [Net (GetTestApiKey ''key'') (Some 200)]\<rparr>)"
proof -
  have h1: "reads_numeral mismatch_env example_config" by code_simp
  have h2: "reads_numeral example_env example_config" by code_simp
  have a: "validate_spec example_config (test_api_key mismatch_env 0 ''key'') = Inl ConfigMismatch"
    by code_simp
  have b: "validate_spec example_config (test_api_key example_env 0 ''key'') = Inr ()"
    by code_simp
  have k: "apiKey example_config = ''key''" by (simp add: example_config_def)
  have m: "validateConfig mismatch_env example_config (boot example_disk) =
     (Inl (Error ''Configuration validation failed: Config mismatch: API key does not match user ID or project ID''),
      \<lparr>files = example_disk, console = [], trace = [Net (GetTestApiKey ''key'') (Some 200)]\<rparr>)"
    using validateConfig_refines[OF h1, of "boot example_disk"] a k
    by (simp add: log_event_def boot_def mismatch_env_def example_env_def)
  have e: "validateConfig example_env example_config (boot example_disk) =
     (Inr (),
      \<lparr>files = example_disk, console = [], trace = [Net (GetTestApiKey ''key'') (Some 200)]\<rparr>)"
    using validateConfig_refines[OF h2, of "boot example_disk"] b k
    by (simp add: log_event_def boot_def example_env_def)
  show ?thesis by (intro conjI h1 h2 a b m e)
qed

text \<open>
  Without the condition the program and the specification part. The stored project
  identifier is \<^verbatim>\<open>'7abc'\<close>, which \<^verbatim>\<open>parseInt\<close> reads as 7, and the remote service
  associates the API key with user 3 and project 7, whose numeral is \<^verbatim>\<open>'7'\<close>: the
  project identifiers disagree and the \<^verbatim>\<open>validate\<close> of the specification fails with
  \<open>ConfigMismatch\<close>, while \<^verbatim>\<open>validateConfig\<close> succeeds.
\<close>

theorem validateConfig_refines_counterexample:
  "projectId trailing_config = ''7abc'' \<and>
   parse_int example_env ''7abc'' = Some (Finite 7) \<and>
   decimal_of (Finite 7) = Some ''7'' \<and>
   \<not> reads_numeral example_env trailing_config \<and>
   test_api_key example_env 0 (apiKey trailing_config) =
     Response 200 (Inr (TestApiKeyUser (Finite 3) (Finite 7))) \<and>
   validate_spec trailing_config (test_api_key example_env 0 (apiKey trailing_config)) =
     Inl ConfigMismatch \<and>
   validateConfig example_env trailing_config (boot single_disk) =
     (Inr (),
      \<lparr>files = single_disk, console = [], trace = [Net (GetTestApiKey ''key'') (Some 200)]\<rparr>)"
  by code_simp

subsection \<open>C7: running \<^verbatim>\<open>sync\<close> twice\<close>

text \<open>
  C7, as amended. Let the environment answer the same question the same way whenever it is
  asked (the remote service and the file system behave identically on both runs), and let
  the names of the directory be distinct. After a second run of \<^verbatim>\<open>sync\<close>, started on the
  disk the first run left, the disk is what the first run left. The second run reports
  nothing to sync exactly when the first run did, or when the first run synced every
  record it enumerated (it reported at least one success and no failure). The second
  run reports no success, and as many failures as the first run reported. The amendment
  is the condition on the first run, and that last sentence.
\<close>

theorem sync_twice:
  assumes "steady env" and "\<forall>es. learnings d = Some es \<longrightarrow> distinct (map fst es)"
  shows "files (snd (sync env (files (snd (sync env d))))) = files (snd (sync env d)) \<and>
         (nothing_to_sync (console (snd (sync env (files (snd (sync env d)))))) \<longleftrightarrow>
            nothing_to_sync (console (snd (sync env d))) \<or>
            (0 < reported_succeeded (console (snd (sync env d))) \<and>
             reported_failed (console (snd (sync env d))) = 0)) \<and>
         reported_succeeded (console (snd (sync env (files (snd (sync env d)))))) = 0 \<and>
         reported_failed (console (snd (sync env (files (snd (sync env d)))))) =
           reported_failed (console (snd (sync env d)))"
proof (cases rule: sync_cases[of env d])
  case (no_config b)
  then show ?thesis by simp
next
  case (invalid c err)
  then show ?thesis by simp
next
  case (no_dir c)
  then show ?thesis by simp
next
  case (list_failed c es m)
  then show ?thesis by simp
next
  case (nothing c es)
  then show ?thesis by simp
next
  case (loop c es fs s e w)
  from assms(2) loop(3) have dist: "distinct (map fst es)" by simp
  note sl = steady_loop[OF assms(1) loop(3) dist loop(7)[unfolded loop(5)]]
  define keep where
    "keep = (\<lambda>en. \<not> (endsWith (fst en) ''.json'' \<and> syncs env c (fst en) (snd en)))"
  define es1 where "es1 = filter keep es"
  define d1 where "d1 = d\<lparr>learnings := Some es1\<rparr>"
  from loop(8) have w1: "snd (sync env d) = report_counts s e w" by simp
  have f1: "files (snd (sync env d)) = d1"
    using sl(1) unfolding w1 d1_def es1_def keep_def by simp
  from sl(4) have plain: "\<forall>m\<in>set (console w). \<not> is_summary m" by blast
  have rs: "reported_succeeded (console (snd (sync env d))) = s"
    and rf: "reported_failed (console (snd (sync env d))) = e"
    unfolding w1 using reported_after_loop[OF plain] by blast+
  have n1: "\<not> nothing_to_sync (console (snd (sync env d)))"
    unfolding w1 using nothing_to_sync_after_loop[OF sl(4)] .
  have failing: "filter (\<lambda>en. endsWith (fst en) ''.json'' \<and> \<not> syncs env c (fst en) (snd en)) es1 =
      filter (\<lambda>en. endsWith (fst en) ''.json'' \<and> \<not> syncs env c (fst en) (snd en)) es"
    unfolding es1_def keep_def by (auto intro: filter_cong)
  have left: "json_files es1 =
      map fst (filter (\<lambda>en. endsWith (fst en) ''.json'' \<and> \<not> syncs env c (fst en) (snd en)) es)"
  proof -
    have "filter (\<lambda>en. endsWith (fst en) ''.json'') (filter keep es) =
        filter (\<lambda>en. endsWith (fst en) ''.json'' \<and> \<not> syncs env c (fst en) (snd en)) es"
      unfolding keep_def by (auto intro: filter_cong)
    then show ?thesis
      by (simp add: json_files_def es1_def filter_map comp_def)
  qed
  with sl(2) have e_zero: "e = 0 \<longleftrightarrow> json_files es1 = []" by simp
  from left sl(2) have len1: "length (json_files es1) = e" by simp
  from sl(3) loop(5,6) have s_pos: "e = 0 \<Longrightarrow> 0 < s" by (cases s) auto
  have v1: "validated env d1 c"
    using loop(1) validated_same_config[of d1 d env c] by (simp add: d1_def)
  have l1: "learnings d1 = Some es1" by (simp add: d1_def)
  have dist1: "distinct (map fst es1)"
    using dist by (simp add: es1_def distinct_map_filter)
  have second: "files (snd (sync env d1)) = d1 \<and>
      (nothing_to_sync (console (snd (sync env d1))) \<longleftrightarrow> e = 0) \<and>
      reported_succeeded (console (snd (sync env d1))) = 0 \<and>
      reported_failed (console (snd (sync env d1))) = e"
  proof (cases rule: sync_cases[of env d1])
    case i1: (no_config b)
    from i1(1) v1 show ?thesis by (auto simp: validated_def)
  next
    case i2: (invalid c' err)
    from loaded_unique[OF i2(1), of c] v1 have "c = c'" by (simp add: validated_def)
    with i2(2) v1 show ?thesis by (simp add: validated_def)
  next
    case i3: (no_dir c')
    from i3(2) loop(2) l1 show ?thesis by simp
  next
    case i4: (list_failed c' es' m)
    from i4(4) loop(4) show ?thesis by simp
  next
    case i5: (nothing c' es')
    from i5(3) l1 have "es' = es1" by simp
    with i5(5) e_zero have "e = 0" by simp
    with i5(6) show ?thesis by simp
  next
    case inner: (loop c' es' fs2 s2 e2 w2)
    from inner(1) v1 loaded_unique[of env d1 c' c] have c': "c' = c" by (simp add: validated_def)
    from inner(3) l1 have es': "es' = es1" by simp
    note sl2 = steady_loop[OF assms(1) l1 dist1 inner(7)[unfolded inner(5) es' c']]
    have "filter keep es1 = es1" by (simp add: es1_def)
    then have fw: "files w2 = d1"
      using sl2(1) unfolding keep_def by (simp add: d1_def)
    have nn: "\<not> nothing_to_sync (console (report_counts s2 e2 w2))"
      using nothing_to_sync_after_loop[OF sl2(4)] .
    from inner(5,6) es' e_zero have ne: "e \<noteq> 0" by simp
    from sl2(2) failing sl(2) have e2: "e2 = e" by simp
    from sl2(3) len1 e2 have s2: "s2 = 0" by simp
    from sl2(4) have plain2: "\<forall>m\<in>set (console w2). \<not> is_summary m" by blast
    from reported_after_loop[OF plain2, of s2 e2] e2 s2
    have "reported_succeeded (console (report_counts s2 e2 w2)) = 0"
      "reported_failed (console (report_counts s2 e2 w2)) = e" by simp_all
    with fw nn ne show ?thesis using inner(8) by simp
  qed
  from second s_pos show ?thesis
    unfolding f1 rs rf using n1 by auto
qed

theorem sync_twice_witness:
  "steady example_env \<and>
   learnings single_disk = Some [(''a.json'', ''first'')] \<and>
   distinct (map fst [(''a.json'', ''first'')]) \<and>
   0 < reported_succeeded (console (snd (sync example_env single_disk))) \<and>
   reported_failed (console (snd (sync example_env single_disk))) = 0 \<and>
   files (snd (sync example_env (files (snd (sync example_env single_disk))))) =
     files (snd (sync example_env single_disk)) \<and>
   nothing_to_sync (console (snd (sync example_env (files (snd (sync example_env single_disk)))))) \<and>
   reported_succeeded (console (snd (sync example_env (files (snd (sync example_env single_disk)))))) = 0 \<and>
   reported_failed (console (snd (sync example_env (files (snd (sync example_env single_disk)))))) = 0"
proof -
  have h1: "steady example_env" by (rule steady_example_env)
  have l: "learnings single_disk = Some [(''a.json'', ''first'')]"
    by (simp add: single_disk_def)
  have d: "distinct (map fst [(''a.json'', ''first'')])" by simp
  have h2: "\<forall>es. learnings single_disk = Some es \<longrightarrow> distinct (map fst es)"
    using l d by simp
  have s: "0 < reported_succeeded (console (snd (sync example_env single_disk)))"
    by code_simp
  have f: "reported_failed (console (snd (sync example_env single_disk))) = 0"
    by code_simp
  note T = sync_twice[OF h1 h2]
  from T have a: "files (snd (sync example_env (files (snd (sync example_env single_disk))))) =
      files (snd (sync example_env single_disk))"
    by (rule conjunct1)
  from T have "nothing_to_sync (console (snd (sync example_env (files (snd (sync example_env single_disk)))))) \<longleftrightarrow>
      nothing_to_sync (console (snd (sync example_env single_disk))) \<or>
      (0 < reported_succeeded (console (snd (sync example_env single_disk))) \<and>
       reported_failed (console (snd (sync example_env single_disk))) = 0)"
    by (rule conjunct2[THEN conjunct1])
  with s f have b: "nothing_to_sync (console (snd (sync example_env (files (snd (sync example_env single_disk))))))"
    by blast
  from T have c: "reported_succeeded (console (snd (sync example_env (files (snd (sync example_env single_disk)))))) = 0"
    by (rule conjunct2[THEN conjunct2, THEN conjunct1])
  from T have "reported_failed (console (snd (sync example_env (files (snd (sync example_env single_disk)))))) =
      reported_failed (console (snd (sync example_env single_disk)))"
    by (rule conjunct2[THEN conjunct2, THEN conjunct2])
  with f have e: "reported_failed (console (snd (sync example_env (files (snd (sync example_env single_disk)))))) = 0"
    by simp
  show ?thesis by (intro conjI h1 l d s f a b c e)
qed

text \<open>
  A record that failed in the first run is still pending, so the second run enumerates
  it again and reports its failure again, not that there is nothing to sync.
\<close>

theorem sync_twice_counterexample:
  "steady example_env \<and>
   learnings two_disk = Some [(''a.json'', ''first''), (''b.json'', ''refused'')] \<and>
   learnings (files (snd (sync example_env two_disk))) = Some [(''b.json'', ''refused'')] \<and>
   files (snd (sync example_env (files (snd (sync example_env two_disk))))) =
     files (snd (sync example_env two_disk)) \<and>
   console (snd (sync example_env (files (snd (sync example_env two_disk))))) =
     [ProjectIdMsg ''7'', Syncing 1,
      FailedToSyncFile ''b.json'' ''Failed to sync f: Server error: 500 - refused'',
      FailedToSyncCount 1] \<and>
   \<not> nothing_to_sync (console (snd (sync example_env (files (snd (sync example_env two_disk))))))"
proof -
  have a: "learnings two_disk = Some [(''a.json'', ''first''), (''b.json'', ''refused'')]"
    by (simp add: two_disk_def)
  have b: "learnings (files (snd (sync example_env two_disk))) = Some [(''b.json'', ''refused'')]"
    by code_simp
  have c: "files (snd (sync example_env (files (snd (sync example_env two_disk))))) =
     files (snd (sync example_env two_disk))"
    by code_simp
  have d: "console (snd (sync example_env (files (snd (sync example_env two_disk))))) =
     [ProjectIdMsg ''7'', Syncing 1,
      FailedToSyncFile ''b.json'' ''Failed to sync f: Server error: 500 - refused'',
      FailedToSyncCount 1]"
    by code_simp
  have e: "\<not> nothing_to_sync (console (snd (sync example_env (files (snd (sync example_env two_disk))))))"
    by code_simp
  show ?thesis by (intro conjI steady_example_env a b c d e)
qed

subsection \<open>C8: \<^verbatim>\<open>link\<close> outside a version-control working tree\<close>

text \<open>
  C8. When the directory is not recognised as a version-control working tree (the command
  \<^verbatim>\<open>git rev-parse --is-inside-work-tree\<close> fails), \<^verbatim>\<open>link\<close> prints the not-a-Git-repository
  message and does nothing else: it performs no file-system operation, so it writes no
  hook file and leaves the configuration as it is.
\<close>

theorem link_outside_git:
  assumes "\<not> isGitRepo env"
  shows "link env d = (Inr (), \<lparr>files = d, console = [NotAGitRepo], trace = []\<rparr>)"
  using assms by (simp add: link_def link_action_def link_body_def print_def boot_def)

theorem link_outside_git_witness:
  "\<not> isGitRepo outside_git_env \<and>
   link outside_git_env example_disk =
     (Inr (), \<lparr>files = example_disk, console = [NotAGitRepo], trace = []\<rparr>)"
proof -
  have h: "\<not> isGitRepo outside_git_env"
    by (simp add: isGitRepo_def outside_git_env_def example_env_def)
  from link_outside_git[OF h, of example_disk] h show ?thesis by simp
qed

subsection \<open>C9: no error leaves a command handler\<close>



subsection \<open>C10: only \<^verbatim>\<open>.json\<close> files are touched\<close>

text \<open>
  C10. A file of the learnings directory whose name does not end in \<^verbatim>\<open>.json\<close> is never
  read, never submitted and never deleted by a run of \<^verbatim>\<open>sync\<close>, and the directory holds
  it at the end exactly as it did before.
\<close>

theorem sync_touches_json_only:
  assumes "\<not> endsWith name ''.json''"
  shows "Fs (ReadLearning name) b \<notin> set (trace (snd (sync env d))) \<and>
         Fs (UnlinkLearning name) b \<notin> set (trace (snd (sync env d))) \<and>
         Net (PostLearning name pid key body) st \<notin> set (trace (snd (sync env d))) \<and>
         map_option (filter (\<lambda>en. fst en = name)) (learnings (files (snd (sync env d)))) =
           map_option (filter (\<lambda>en. fst en = name)) (learnings d)"
proof -
  have main: "(\<forall>ev\<in>set (trace (snd (sync env d))). record_of ev \<noteq> Some name) \<and>
         map_option (filter (\<lambda>en. fst en = name)) (learnings (files (snd (sync env d)))) =
           map_option (filter (\<lambda>en. fst en = name)) (learnings d)"
  proof (cases rule: sync_cases[of env d])
    case (no_config b)
    then show ?thesis by simp
  next
    case (invalid c err)
    then show ?thesis by simp
  next
    case (no_dir c)
    then show ?thesis by simp
  next
    case (list_failed c es m)
    then show ?thesis by simp
  next
    case (nothing c es)
    then show ?thesis by simp
  next
    case (loop c es fs s e w)
    note st = loop_state[OF loop(3) loop(7)]
    from loop(5) assms have nm: "name \<notin> set fs" by (simp add: json_files_def)
    from st(1) have ev: "\<forall>ev\<in>set (trace w). \<forall>f. record_of ev = Some f \<longrightarrow> f \<in> set fs"
      and ls: "learnings (files w) = Some (filter (\<lambda>en. \<not> deleted (trace w) (fst en)) es)"
      by (simp_all add: core_def)
    from ev nm have untouched: "\<forall>ev\<in>set (trace w). record_of ev \<noteq> Some name" by blast
    then have "\<not> deleted (trace w) name" by (force simp: deleted_def)
    then have "filter (\<lambda>en. fst en = name) (filter (\<lambda>en. \<not> deleted (trace w) (fst en)) es) =
               filter (\<lambda>en. fst en = name) es"
      by (auto intro: filter_cong)
    with untouched ls loop(3,8) show ?thesis by simp
  qed
  then have "\<And>ev. record_of ev = Some name \<Longrightarrow> ev \<notin> set (trace (snd (sync env d)))"
    by blast
  from this[of "Fs (ReadLearning name) b"] this[of "Fs (UnlinkLearning name) b"]
    this[of "Net (PostLearning name pid key body) st"] main
  show ?thesis by simp
qed

theorem sync_touches_json_only_witness:
  "\<not> endsWith ''notes.txt'' ''.json'' \<and>
   Fs (ReadLearning ''notes.txt'') True \<notin> set (trace (snd (sync example_env example_disk))) \<and>
   Fs (UnlinkLearning ''notes.txt'') True \<notin> set (trace (snd (sync example_env example_disk))) \<and>
   Net (PostLearning ''notes.txt'' ''7'' ''key'' (LearningBody ''text'' ''f'' ''lib'' ''d'' ''c'')) (Some 201)
     \<notin> set (trace (snd (sync example_env example_disk))) \<and>
   map_option (filter (\<lambda>en. fst en = ''notes.txt''))
     (learnings (files (snd (sync example_env example_disk)))) = Some [(''notes.txt'', ''text'')]"
proof -
  let ?w = "snd (sync example_env example_disk)"
  have h: "\<not> endsWith ''notes.txt'' ''.json''" by code_simp
  have before: "map_option (filter (\<lambda>en. fst en = ''notes.txt'')) (learnings example_disk) =
      Some [(''notes.txt'', ''text'')]"
    by code_simp
  note T = sync_touches_json_only[OF h, where b = True and env = example_env
      and d = example_disk and pid = "''7''" and key = "''key''"
      and body = "LearningBody ''text'' ''f'' ''lib'' ''d'' ''c''" and st = "Some 201"]
  from T have a: "Fs (ReadLearning ''notes.txt'') True \<notin> set (trace ?w)" by (elim conjE)
  from T have b: "Fs (UnlinkLearning ''notes.txt'') True \<notin> set (trace ?w)" by (elim conjE)
  from T have c: "Net (PostLearning ''notes.txt'' ''7'' ''key''
      (LearningBody ''text'' ''f'' ''lib'' ''d'' ''c'')) (Some 201) \<notin> set (trace ?w)"
    by (elim conjE)
  from T have "map_option (filter (\<lambda>en. fst en = ''notes.txt'')) (learnings (files ?w)) =
      map_option (filter (\<lambda>en. fst en = ''notes.txt'')) (learnings example_disk)"
    by (elim conjE)
  then have d: "map_option (filter (\<lambda>en. fst en = ''notes.txt'')) (learnings (files ?w)) =
      Some [(''notes.txt'', ''text'')]"
    unfolding before .
  show ?thesis by (intro conjI h a b c d)
qed

end
